(* ===== verification/Prelude.thy ===== *)
theory Prelude
  imports Main "HOL-Library.Sublist"
begin

text \<open>
  Shared vocabulary of the development: the Python exceptions the modelled
  scripts can raise, the error-propagating bind on \<open>py_error + 'a\<close> that stands
  for ordinary Python control flow (an exception aborts the enclosing call), the
  traversal of a list under that bind, and the counting lemmas on lists that
  the probe theories share.  The named collections gather the rewrite rules
  that the component theories feed to \<open>simp\<close>.
\<close>

named_theorems err_simps "rewrite rules for the error-propagating combinators"
named_theorems count_simps "rewrite rules for the accumulating loops of the probes"

section \<open>Python exceptions as values\<close>

text \<open>
  The exceptions the modelled code can raise on malformed input.  An exception
  that escapes to the top level terminates the interpreter with exit status 1.
\<close>

datatype py_error =
    AttributeError     \<comment> \<open>\<open>.get\<close> on a value that is not a \<open>dict\<close>\<close>
  | TypeError          \<comment> \<open>iterating, \<open>len\<close>, hashing or joining an unsuitable value\<close>
  | FileNotFoundError  \<comment> \<open>\<open>subprocess.run\<close> of a program that is not installed\<close>
  | OverflowError      \<comment> \<open>\<open>datetime\<close>/\<open>timedelta\<close> arithmetic out of range\<close>
  | ValueError         \<comment> \<open>\<open>float(s)\<close> of a string that is not a number\<close>
  | IndexError         \<comment> \<open>\<open>xs[0]\<close> of an empty list or string\<close>
  | KeyError           \<comment> \<open>\<open>d[k]\<close> of a key the \<open>dict\<close> does not hold\<close>
  | ServiceError       \<comment> \<open>an exception raised by an AWS client call\<close>

type_synonym 'a py_result = "py_error + 'a"

definition bind_err :: "'a py_result \<Rightarrow> ('a \<Rightarrow> 'b py_result) \<Rightarrow> 'b py_result" where
  "bind_err r f = (case r of Inl e \<Rightarrow> Inl e | Inr x \<Rightarrow> f x)"

lemma bind_err_Inl [simp, err_simps]: "bind_err (Inl e) f = Inl e"
  by (simp add: bind_err_def)

lemma bind_err_Inr [simp, err_simps]: "bind_err (Inr x) f = f x"
  by (simp add: bind_err_def)

lemma bind_err_eq_Inr [err_simps]:
  "bind_err r f = Inr y \<longleftrightarrow> (\<exists>x. r = Inr x \<and> f x = Inr y)"
  by (cases r) simp_all

lemma bind_err_cong [fundef_cong]:
  "r = r' \<Longrightarrow> (\<And>x. r' = Inr x \<Longrightarrow> f x = g x) \<Longrightarrow> bind_err r f = bind_err r' g"
  by (cases r') simp_all

text \<open>
  \<open>traverse_err f xs\<close> applies \<open>f\<close> to the elements in order and stops at the
  first exception, as a Python \<open>for\<close> loop whose body raises does.
\<close>

fun traverse_err :: "('a \<Rightarrow> 'b py_result) \<Rightarrow> 'a list \<Rightarrow> 'b list py_result" where
  "traverse_err f [] = Inr []"
| "traverse_err f (x # xs) =
     bind_err (f x) (\<lambda>y. bind_err (traverse_err f xs) (\<lambda>ys. Inr (y # ys)))"

lemma traverse_err_map [err_simps]:
  "(\<And>x. x \<in> set xs \<Longrightarrow> f x = Inr (g x)) \<Longrightarrow> traverse_err f xs = Inr (map g xs)"
  by (induction xs) simp_all

lemma traverse_err_length:
  "traverse_err f xs = Inr ys \<Longrightarrow> length ys = length xs"
  by (induction xs arbitrary: ys) (auto simp: bind_err_eq_Inr)

lemma traverse_err_append [err_simps]:
  "traverse_err f (xs @ ys) =
     bind_err (traverse_err f xs) (\<lambda>as. bind_err (traverse_err f ys) (\<lambda>bs. Inr (as @ bs)))"
  by (induction xs) (auto simp: bind_err_def split: sum.splits)

section \<open>Computations that print and may raise\<close>

text \<open>
  A run of a script fragment: the lines it printed, in order, and its result or
  the exception that ended it.  \<open>bind_run\<close> sequences two fragments; the lines
  printed before an exception are kept, as on a terminal.
\<close>

type_synonym ('o, 'a) run = "'o list \<times> 'a py_result"

definition bind_run :: "('o, 'a) run \<Rightarrow> ('a \<Rightarrow> ('o, 'b) run) \<Rightarrow> ('o, 'b) run" where
  "bind_run m f =
     (case snd m of Inl e \<Rightarrow> (fst m, Inl e) | Inr x \<Rightarrow> (fst m @ fst (f x), snd (f x)))"

definition emit :: "'o list \<Rightarrow> ('o, unit) run" where
  "emit out = (out, Inr ())"

definition lift_err :: "'a py_result \<Rightarrow> ('o, 'a) run" where
  "lift_err r = ([], r)"

lemma snd_bind_run [simp, err_simps]: "snd (bind_run m f) = bind_err (snd m) (\<lambda>x. snd (f x))"
  by (simp add: bind_run_def bind_err_def split: sum.splits)

lemma bind_run_Inr [simp, err_simps]: "bind_run (out, Inr x) f = (out @ fst (f x), snd (f x))"
  by (simp add: bind_run_def)

lemma bind_run_Inl [simp, err_simps]: "bind_run (out, Inl e) f = (out, Inl e)"
  by (simp add: bind_run_def)

lemma fst_bind_run_prefix: "prefix (fst m) (fst (bind_run m f))"
  by (simp add: bind_run_def split: sum.splits)

lemma sublist_append_right_mono: "sublist xs ys \<Longrightarrow> sublist xs (ys @ zs)"
  by (metis sublist_append_rightI sublist_order.order_trans)

lemma sublist_Cons_mono: "sublist xs ys \<Longrightarrow> sublist xs (z # ys)"
  by (simp add: sublist_Cons_right)

section \<open>Counting over lists\<close>

lemma sum_list_map_le_length:
  "sum_list (map f xs) \<le> length xs"
  if "\<And>x. x \<in> set xs \<Longrightarrow> f x \<le> (1::nat)"
proof -
  have "sum_list (map f xs) \<le> sum_list (map (\<lambda>_. 1) xs)"
    using that by (intro sum_list_mono) simp
  then show ?thesis by (simp add: sum_list_triv)
qed

lemma sum_list_map_eq_length:
  "sum_list (map f xs) = length xs \<longleftrightarrow> (\<forall>x \<in> set xs. f x = (1::nat))"
  if "\<And>x. x \<in> set xs \<Longrightarrow> f x \<le> 1"
  using that
proof (induction xs)
  case Nil
  then show ?case by simp
next
  case (Cons x xs)
  have le: "sum_list (map f xs) \<le> length xs"
    using Cons.prems by (intro sum_list_map_le_length) auto
  have fx: "f x \<le> 1" using Cons.prems by simp
  have "sum_list (map f (x # xs)) = length (x # xs) \<longleftrightarrow>
        f x = 1 \<and> sum_list (map f xs) = length xs"
    using le fx by auto
  with Cons.IH Cons.prems show ?case by auto
qed

lemma length_filter_split:
  "length (filter P xs) = length (filter (\<lambda>x. P x \<and> Q x) xs) + length (filter (\<lambda>x. P x \<and> \<not> Q x) xs)"
  by (induction xs) auto

lemma length_filter_eq_length:
  "length (filter P xs) = length xs \<longleftrightarrow> (\<forall>x \<in> set xs. P x)"
  by (metis filter_id_conv length_filter_less less_irrefl)

lemma sum_list_map_add:
  "sum_list (map f xs) + sum_list (map g xs) = sum_list (map (\<lambda>x. f x + g x) xs)"
  for f g :: "'a \<Rightarrow> nat"
  by (induction xs) simp_all

lemma sum_list_map_eq_0 [count_simps]:
  "sum_list (map f xs) = (0::nat) \<longleftrightarrow> (\<forall>x \<in> set xs. f x = 0)"
  by (induction xs) auto

lemma sum_list_map_le_1_count:
  "sum_list (map f xs) + length (filter (\<lambda>x. f x = 0) xs) = length xs"
  if "\<And>x. x \<in> set xs \<Longrightarrow> f x \<le> (1::nat)"
  using that by (induction xs) fastforce+

lemma count_positive_le_sum_list:
  "length (filter (\<lambda>x. 0 < f x) xs) \<le> sum_list (map f xs)"
  for f :: "'a \<Rightarrow> nat"
  by (induction xs) auto

lemma sum_list_map_eq_count_positive:
  "sum_list (map f xs) = length (filter (\<lambda>x. 0 < f x) xs) \<longleftrightarrow> (\<forall>x \<in> set xs. f x \<le> 1)"
  for f :: "'a \<Rightarrow> nat"
proof (induction xs)
  case Nil
  then show ?case by simp
next
  case (Cons x xs)
  have "length (filter (\<lambda>x. 0 < f x) xs) \<le> sum_list (map f xs)"
    by (rule count_positive_le_sum_list)
  with Cons.IH show ?case by auto
qed

end
