(* ===== verification/Json_Model.thy ===== *)
theory Json_Model
  imports Prelude
begin

text \<open>
  The values \<open>json.loads\<close> returns to the scripts and the few Python operations
  the probes apply to them: \<open>dict.get(key, default)\<close>, iteration in a \<open>for\<close>
  loop, \<open>len\<close>, equality with a string literal and use as a dictionary key.
  Each operation returns \<open>Inl\<close> of the exception Python raises where the value has
  the wrong shape, so a probe over an arbitrary document is a total function.
\<close>

section \<open>JSON values\<close>

text \<open>
  An object is the \<open>dict\<close> \<open>json.loads\<close> builds: an association list whose keys
  are distinct (a repeated key in the text keeps its last value, at the position of
  its first occurrence).  JSON numbers are modelled as integers; floating-point
  numbers do not occur in the fields the probes read.
\<close>

datatype json =
    JNull
  | JBool bool
  | JInt int
  | JStr string
  | JArr "json list"
  | JObj "(string \<times> json) list"

definition jempty_obj :: json where
  "jempty_obj = JObj []"

definition jempty_arr :: json where
  "jempty_arr = JArr []"

section \<open>Python operations on JSON values\<close>

text \<open>\<open>d.get(k, default)\<close>: only a \<open>dict\<close> has the method.\<close>

fun py_get :: "json \<Rightarrow> string \<Rightarrow> json \<Rightarrow> json py_result" where
  "py_get (JObj kvs) k d = Inr (case map_of kvs k of None \<Rightarrow> d | Some v \<Rightarrow> v)"
| "py_get _ k d = Inl AttributeError"

text \<open>
  \<open>for x in v\<close>: a list yields its elements, a \<open>dict\<close> its keys, a string its
  characters (one-character strings); \<open>None\<close>, booleans and numbers are not
  iterable.
\<close>

fun py_iter :: "json \<Rightarrow> json list py_result" where
  "py_iter (JArr xs) = Inr xs"
| "py_iter (JObj kvs) = Inr (map (\<lambda>kv. JStr (fst kv)) kvs)"
| "py_iter (JStr s) = Inr (map (\<lambda>c. JStr [c]) s)"
| "py_iter _ = Inl TypeError"

text \<open>\<open>len(v)\<close>.\<close>

fun py_len :: "json \<Rightarrow> nat py_result" where
  "py_len (JArr xs) = Inr (length xs)"
| "py_len (JObj kvs) = Inr (length kvs)"
| "py_len (JStr s) = Inr (length s)"
| "py_len _ = Inl TypeError"

section \<open>Dictionary keys\<close>

text \<open>
  A value used as a key of a Python \<open>dict\<close> must be hashable: lists and dicts are
  not.  Keys are compared by Python equality, under which \<open>True == 1\<close> and
  \<open>False == 0\<close>; \<open>key_norm\<close> sends each key to the representative of its class,
  so a map on normalised keys behaves as the \<open>dict\<close>.
\<close>

datatype pykey = KNone | KBool bool | KInt int | KStr string

fun py_key :: "json \<Rightarrow> pykey py_result" where
  "py_key JNull = Inr KNone"
| "py_key (JBool b) = Inr (KBool b)"
| "py_key (JInt i) = Inr (KInt i)"
| "py_key (JStr s) = Inr (KStr s)"
| "py_key (JArr xs) = Inl TypeError"
| "py_key (JObj kvs) = Inl TypeError"

fun key_json :: "pykey \<Rightarrow> json" where
  "key_json KNone = JNull"
| "key_json (KBool b) = JBool b"
| "key_json (KInt i) = JInt i"
| "key_json (KStr s) = JStr s"

fun key_norm :: "pykey \<Rightarrow> pykey" where
  "key_norm (KBool b) = KInt (if b then 1 else 0)"
| "key_norm k = k"

section \<open>Lemmas\<close>

lemma py_get_Inr_iff [err_simps]:
  "py_get v k d = Inr r \<longleftrightarrow> (\<exists>kvs. v = JObj kvs \<and> r = (case map_of kvs k of None \<Rightarrow> d | Some x \<Rightarrow> x))"
  by (cases v) auto

lemma py_get_obj_found [simp]:
  "map_of kvs k = Some x \<Longrightarrow> py_get (JObj kvs) k d = Inr x"
  by simp

lemma py_key_key_json [simp]: "py_key (key_json k) = Inr k"
  by (cases k) simp_all

lemma key_json_py_key: "py_key v = Inr k \<Longrightarrow> key_json k = v"
  by (cases v) auto

lemma key_norm_idem [simp]: "key_norm (key_norm k) = key_norm k"
  by (cases k) simp_all

end
