(* ===== verification/Node_Probe.thy ===== *)
theory Node_Probe
  imports Json_Model
begin

text \<open>
  The node probe, \<open>check_node_status\<close> of \<open>src/automation/health_check.py\<close>
  (lines 41--60).  Two layers:
  \<^item> the typed layer: a node is the list of its conditions, each the two fields
    the code reads (\<open>type\<close> and \<open>status\<close>, Python \<open>None\<close> where missing), and the
    probe is the two nested counting loops of the source over these records;
  \<^item> the JSON layer: the same loops over the \<open>json.loads\<close> document, with every
    \<open>.get\<close> and every iteration of the source, raising where Python raises.
  \<open>decode_nodes\<close> reads the typed records out of a document, and the refinement
  theorem says the JSON probe is the typed probe after decoding, errors included.
\<close>

section \<open>Typed layer\<close>

record node_status =
  ns_total :: nat
  ns_ready :: nat
  ns_not_ready :: nat

record condition =
  cond_type :: json
  cond_status :: json

record node =
  node_conditions :: "condition list"

definition node_status_init :: node_status where
  "node_status_init = \<lparr>ns_total = 0, ns_ready = 0, ns_not_ready = 0\<rparr>"

text \<open>The inner loop, \<open>for condition in conditions\<close> (lines 53--58).\<close>

fun count_conditions :: "node_status \<Rightarrow> condition list \<Rightarrow> node_status" where
  "count_conditions st [] = st"
| "count_conditions st (c # cs) =
     count_conditions
       (if cond_type c = JStr ''Ready'' then
          (if cond_status c = JStr ''True''
           then st\<lparr>ns_ready := ns_ready st + 1\<rparr>
           else st\<lparr>ns_not_ready := ns_not_ready st + 1\<rparr>)
        else st) cs"

text \<open>The outer loop, \<open>for node in nodes.get('items', [])\<close> (lines 50--58).\<close>

fun count_nodes :: "node_status \<Rightarrow> node list \<Rightarrow> node_status" where
  "count_nodes st [] = st"
| "count_nodes st (n # ns) =
     count_nodes (count_conditions (st\<lparr>ns_total := ns_total st + 1\<rparr>) (node_conditions n)) ns"

definition check_node_status_t :: "node list \<Rightarrow> node_status" where
  "check_node_status_t ns = count_nodes node_status_init ns"

text \<open>Reference counts: the Ready conditions of one node, by status.\<close>

definition ready_true :: "node \<Rightarrow> nat" where
  "ready_true n = length (filter (\<lambda>c. cond_type c = JStr ''Ready'' \<and> cond_status c = JStr ''True'')
                                 (node_conditions n))"

definition ready_other :: "node \<Rightarrow> nat" where
  "ready_other n = length (filter (\<lambda>c. cond_type c = JStr ''Ready'' \<and> cond_status c \<noteq> JStr ''True'')
                                  (node_conditions n))"

definition ready_conditions :: "node \<Rightarrow> nat" where
  "ready_conditions n = length (filter (\<lambda>c. cond_type c = JStr ''Ready'') (node_conditions n))"

section \<open>JSON layer\<close>

fun count_conditions_j :: "node_status \<Rightarrow> json list \<Rightarrow> node_status py_result" where
  "count_conditions_j st [] = Inr st"
| "count_conditions_j st (c # cs) =
     bind_err (py_get c ''type'' JNull) (\<lambda>ty.
       if ty = JStr ''Ready'' then
         bind_err (py_get c ''status'' JNull) (\<lambda>s.
           count_conditions_j
             (if s = JStr ''True'' then st\<lparr>ns_ready := ns_ready st + 1\<rparr>
              else st\<lparr>ns_not_ready := ns_not_ready st + 1\<rparr>) cs)
       else count_conditions_j st cs)"

fun count_nodes_j :: "node_status \<Rightarrow> json list \<Rightarrow> node_status py_result" where
  "count_nodes_j st [] = Inr st"
| "count_nodes_j st (n # ns) =
     bind_err (py_get n ''status'' jempty_obj) (\<lambda>s.
     bind_err (py_get s ''conditions'' jempty_arr) (\<lambda>cv.
     bind_err (py_iter cv) (\<lambda>cs.
     bind_err (count_conditions_j (st\<lparr>ns_total := ns_total st + 1\<rparr>) cs) (\<lambda>st'.
       count_nodes_j st' ns))))"

text \<open>\<open>check_node_status\<close> applied to the document \<open>run_kubectl_command\<close> returned.\<close>

definition check_node_status :: "json \<Rightarrow> node_status py_result" where
  "check_node_status nodes =
     bind_err (py_get nodes ''items'' jempty_arr) (\<lambda>iv.
     bind_err (py_iter iv) (\<lambda>items. count_nodes_j node_status_init items))"

section \<open>Decoding\<close>

definition decode_condition :: "json \<Rightarrow> condition py_result" where
  "decode_condition c =
     bind_err (py_get c ''type'' JNull) (\<lambda>ty.
     bind_err (py_get c ''status'' JNull) (\<lambda>s.
       Inr \<lparr>cond_type = ty, cond_status = s\<rparr>))"

definition decode_node :: "json \<Rightarrow> node py_result" where
  "decode_node n =
     bind_err (py_get n ''status'' jempty_obj) (\<lambda>s.
     bind_err (py_get s ''conditions'' jempty_arr) (\<lambda>cv.
     bind_err (py_iter cv) (\<lambda>cs.
     bind_err (traverse_err decode_condition cs) (\<lambda>conds.
       Inr \<lparr>node_conditions = conds\<rparr>))))"

definition decode_nodes :: "json \<Rightarrow> node list py_result" where
  "decode_nodes nodes =
     bind_err (py_get nodes ''items'' jempty_arr) (\<lambda>iv.
     bind_err (py_iter iv) (traverse_err decode_node))"

section \<open>Properties of the node probe\<close>

subsection \<open>The counting loops in closed form\<close>

lemma count_conditions_eq [count_simps]:
  "count_conditions st cs =
     st\<lparr>ns_ready := ns_ready st + length (filter (\<lambda>c. cond_type c = JStr ''Ready'' \<and> cond_status c = JStr ''True'') cs),
        ns_not_ready := ns_not_ready st + length (filter (\<lambda>c. cond_type c = JStr ''Ready'' \<and> cond_status c \<noteq> JStr ''True'') cs)\<rparr>"
  by (induction cs arbitrary: st) auto

lemma count_nodes_eq [count_simps]:
  "count_nodes st ns =
     st\<lparr>ns_total := ns_total st + length ns,
        ns_ready := ns_ready st + sum_list (map ready_true ns),
        ns_not_ready := ns_not_ready st + sum_list (map ready_other ns)\<rparr>"
  by (induction ns arbitrary: st) (auto simp: count_conditions_eq ready_true_def ready_other_def)

lemma ready_conditions_split: "ready_conditions n = ready_true n + ready_other n"
  unfolding ready_conditions_def ready_true_def ready_other_def
  by (rule length_filter_split)

text \<open>
  C9.  The node probe counts every node in \<open>total\<close>, and every condition of type
  \<open>Ready\<close> of every node in \<open>ready\<close> when its status is the string \<open>True\<close> and in
  \<open>not_ready\<close> otherwise: the counters are sums over the nodes of per-node counts
  of Ready conditions, not counts of nodes.
\<close>

theorem check_node_status_t_counts:
  "check_node_status_t ns =
     \<lparr>ns_total = length ns, ns_ready = sum_list (map ready_true ns),
      ns_not_ready = sum_list (map ready_other ns)\<rparr>"
  by (simp add: check_node_status_t_def count_nodes_eq node_status_init_def)

lemma sum_ready_counts:
  "sum_list (map ready_true ns) + sum_list (map ready_other ns) = sum_list (map ready_conditions ns)"
  by (simp add: sum_list_map_add ready_conditions_split [symmetric])

text \<open>
  C10.  When every node carries exactly one condition of type \<open>Ready\<close> (as the
  Kubernetes node controller reports), every node is counted in exactly one of
  \<open>ready\<close> and \<open>not_ready\<close>: \<open>ready + not_ready = total\<close>.
\<close>

theorem node_total_eq_ready_sum:
  assumes "\<forall>n \<in> set ns. ready_conditions n = 1"
  shows "ns_ready (check_node_status_t ns) + ns_not_ready (check_node_status_t ns)
           = ns_total (check_node_status_t ns)"
proof -
  have "sum_list (map ready_conditions ns) = length ns"
    using assms by (induction ns) auto
  then show ?thesis by (simp add: check_node_status_t_counts sum_ready_counts)
qed

theorem node_total_eq_ready_sum_witness:
  "ready_conditions \<lparr>node_conditions = [\<lparr>cond_type = JStr ''Ready'', cond_status = JStr ''False''\<rparr>]\<rparr> = 1 \<and>
   ns_ready (check_node_status_t [\<lparr>node_conditions = [\<lparr>cond_type = JStr ''Ready'', cond_status = JStr ''False''\<rparr>]\<rparr>])
   + ns_not_ready (check_node_status_t [\<lparr>node_conditions = [\<lparr>cond_type = JStr ''Ready'', cond_status = JStr ''False''\<rparr>]\<rparr>])
   = ns_total (check_node_status_t [\<lparr>node_conditions = [\<lparr>cond_type = JStr ''Ready'', cond_status = JStr ''False''\<rparr>]\<rparr>])"
  using node_total_eq_ready_sum [of "[\<lparr>node_conditions = [\<lparr>cond_type = JStr ''Ready'', cond_status = JStr ''False''\<rparr>]\<rparr>]"]
  by (simp add: ready_conditions_def)

text \<open>
  C12.  A node that reports no condition of type \<open>Ready\<close> is counted in \<open>total\<close>
  and in neither \<open>ready\<close> nor \<open>not_ready\<close>: when no node has two Ready
  conditions, \<open>ready + not_ready\<close> falls short of \<open>total\<close> by exactly the number
  of nodes without one, so the invariant \<open>total = ready + not_ready\<close> of the
  specification fails for them, and the verdict, which looks at \<open>not_ready\<close>
  only, does not count them against health.
\<close>

theorem node_without_ready_uncounted:
  assumes "\<forall>n \<in> set ns. ready_conditions n \<le> 1"
  shows "ns_ready (check_node_status_t ns) + ns_not_ready (check_node_status_t ns)
           + length (filter (\<lambda>n. ready_conditions n = 0) ns) = ns_total (check_node_status_t ns)"
  using sum_list_map_le_1_count [of ns ready_conditions] assms
  by (simp add: check_node_status_t_counts sum_ready_counts)

theorem node_without_ready_uncounted_witness:
  "ready_conditions \<lparr>node_conditions = [\<lparr>cond_type = JStr ''MemoryPressure'', cond_status = JStr ''False''\<rparr>]\<rparr> \<le> 1 \<and>
   ns_ready (check_node_status_t [\<lparr>node_conditions = [\<lparr>cond_type = JStr ''MemoryPressure'', cond_status = JStr ''False''\<rparr>]\<rparr>])
   + ns_not_ready (check_node_status_t [\<lparr>node_conditions = [\<lparr>cond_type = JStr ''MemoryPressure'', cond_status = JStr ''False''\<rparr>]\<rparr>])
   + 1 = ns_total (check_node_status_t [\<lparr>node_conditions = [\<lparr>cond_type = JStr ''MemoryPressure'', cond_status = JStr ''False''\<rparr>]\<rparr>])"
  using node_without_ready_uncounted [of "[\<lparr>node_conditions = [\<lparr>cond_type = JStr ''MemoryPressure'', cond_status = JStr ''False''\<rparr>]\<rparr>]"]
  by (simp add: ready_conditions_def)

subsection \<open>Refinement: the JSON loops are the typed loops after decoding\<close>

lemma count_conditions_j_refines:
  "count_conditions_j st cs =
     bind_err (traverse_err decode_condition cs) (\<lambda>conds. Inr (count_conditions st conds))"
proof (induction cs arbitrary: st)
  case Nil
  then show ?case by simp
next
  case (Cons c cs)
  then show ?case
    by (cases c) (auto simp: decode_condition_def bind_err_def split: option.splits sum.splits)
qed

lemma count_nodes_j_refines:
  "count_nodes_j st ns = bind_err (traverse_err decode_node ns) (\<lambda>nodes. Inr (count_nodes st nodes))"
proof (induction ns arbitrary: st)
  case Nil
  then show ?case by simp
next
  case (Cons n ns)
  then show ?case
    by (auto simp: decode_node_def count_conditions_j_refines bind_err_def split: sum.splits)
qed

text \<open>
  C11.  On any document, the source's \<open>check_node_status\<close> raises exactly when
  decoding the node records raises (with the same exception), and otherwise
  returns the typed probe's counts for the decoded records.
\<close>

theorem check_node_status_refines:
  "check_node_status js = bind_err (decode_nodes js) (\<lambda>ns. Inr (check_node_status_t ns))"
  by (auto simp: check_node_status_def decode_nodes_def check_node_status_t_def
                 count_nodes_j_refines bind_err_def split: sum.splits)

end
