(* ===== verification/Pod_Probe.thy ===== *)
theory Pod_Probe
  imports Json_Model
begin

text \<open>
  The workload probe, \<open>check_pod_status\<close> of \<open>src/automation/health_check.py\<close>
  (lines 62--91), in the two layers of the node probe: typed pod records holding
  the fields the code reads (the phase, defaulted to \<open>'Unknown'\<close>, and the
  waiting reason of each container status, \<open>None\<close> where missing), the source's
  loop over them, the same loop over the JSON document, and the refinement
  theorem linking the two.
\<close>

section \<open>Typed layer\<close>

record pod_status =
  ps_total :: nat
  ps_running :: nat
  ps_pending :: nat
  ps_failed :: nat
  ps_crash_loop_backoff :: nat

record container_status =
  cs_reason :: json

record pod =
  pod_phase :: json
  pod_containers :: "container_status list"

definition pod_status_init :: pod_status where
  "pod_status_init =
     \<lparr>ps_total = 0, ps_running = 0, ps_pending = 0, ps_failed = 0, ps_crash_loop_backoff = 0\<rparr>"

text \<open>The \<open>if\<close>/\<open>elif\<close> chain on the phase (lines 77--82).\<close>

definition classify_phase :: "pod_status \<Rightarrow> json \<Rightarrow> pod_status" where
  "classify_phase st ph =
     (if ph = JStr ''Running'' then st\<lparr>ps_running := ps_running st + 1\<rparr>
      else if ph = JStr ''Pending'' then st\<lparr>ps_pending := ps_pending st + 1\<rparr>
      else if ph = JStr ''Failed'' then st\<lparr>ps_failed := ps_failed st + 1\<rparr>
      else st)"

text \<open>The loop over the container statuses (lines 86--89): one increment per container.\<close>

fun count_containers :: "pod_status \<Rightarrow> container_status list \<Rightarrow> pod_status" where
  "count_containers st [] = st"
| "count_containers st (c # cs) =
     count_containers
       (if cs_reason c = JStr ''CrashLoopBackOff''
        then st\<lparr>ps_crash_loop_backoff := ps_crash_loop_backoff st + 1\<rparr> else st) cs"

text \<open>The loop over the pods (lines 73--89).\<close>

fun count_pods :: "pod_status \<Rightarrow> pod list \<Rightarrow> pod_status" where
  "count_pods st [] = st"
| "count_pods st (p # ps) =
     count_pods
       (count_containers (classify_phase (st\<lparr>ps_total := ps_total st + 1\<rparr>) (pod_phase p))
          (pod_containers p)) ps"

definition check_pod_status_t :: "pod list \<Rightarrow> pod_status" where
  "check_pod_status_t ps = count_pods pod_status_init ps"

definition phase_count :: "string \<Rightarrow> pod list \<Rightarrow> nat" where
  "phase_count ph ps = length (filter (\<lambda>p. pod_phase p = JStr ph) ps)"

definition recognised_phase :: "json \<Rightarrow> bool" where
  "recognised_phase ph \<longleftrightarrow> ph = JStr ''Running'' \<or> ph = JStr ''Pending'' \<or> ph = JStr ''Failed''"

definition crash_containers :: "pod \<Rightarrow> nat" where
  "crash_containers p = length (filter (\<lambda>c. cs_reason c = JStr ''CrashLoopBackOff'') (pod_containers p))"

section \<open>JSON layer\<close>

fun count_containers_j :: "pod_status \<Rightarrow> json list \<Rightarrow> pod_status py_result" where
  "count_containers_j st [] = Inr st"
| "count_containers_j st (c # cs) =
     bind_err (py_get c ''state'' jempty_obj) (\<lambda>state.
     bind_err (py_get state ''waiting'' jempty_obj) (\<lambda>waiting.
     bind_err (py_get waiting ''reason'' JNull) (\<lambda>r.
       count_containers_j
         (if r = JStr ''CrashLoopBackOff''
          then st\<lparr>ps_crash_loop_backoff := ps_crash_loop_backoff st + 1\<rparr> else st) cs)))"

fun count_pods_j :: "pod_status \<Rightarrow> json list \<Rightarrow> pod_status py_result" where
  "count_pods_j st [] = Inr st"
| "count_pods_j st (p # ps) =
     bind_err (py_get p ''status'' jempty_obj) (\<lambda>s.
     bind_err (py_get s ''phase'' (JStr ''Unknown'')) (\<lambda>ph.
     bind_err (py_get p ''status'' jempty_obj) (\<lambda>s'.
     bind_err (py_get s' ''containerStatuses'' jempty_arr) (\<lambda>cv.
     bind_err (py_iter cv) (\<lambda>cs.
     bind_err (count_containers_j (classify_phase (st\<lparr>ps_total := ps_total st + 1\<rparr>) ph) cs) (\<lambda>st'.
       count_pods_j st' ps))))))"

definition check_pod_status :: "json \<Rightarrow> pod_status py_result" where
  "check_pod_status pods =
     bind_err (py_get pods ''items'' jempty_arr) (\<lambda>iv.
     bind_err (py_iter iv) (\<lambda>items. count_pods_j pod_status_init items))"

section \<open>Decoding and encoding\<close>

definition decode_container :: "json \<Rightarrow> container_status py_result" where
  "decode_container c =
     bind_err (py_get c ''state'' jempty_obj) (\<lambda>state.
     bind_err (py_get state ''waiting'' jempty_obj) (\<lambda>waiting.
     bind_err (py_get waiting ''reason'' JNull) (\<lambda>r. Inr \<lparr>cs_reason = r\<rparr>)))"

definition decode_pod :: "json \<Rightarrow> pod py_result" where
  "decode_pod p =
     bind_err (py_get p ''status'' jempty_obj) (\<lambda>s.
     bind_err (py_get s ''phase'' (JStr ''Unknown'')) (\<lambda>ph.
     bind_err (py_get p ''status'' jempty_obj) (\<lambda>s'.
     bind_err (py_get s' ''containerStatuses'' jempty_arr) (\<lambda>cv.
     bind_err (py_iter cv) (\<lambda>cs.
     bind_err (traverse_err decode_container cs) (\<lambda>conts.
       Inr \<lparr>pod_phase = ph, pod_containers = conts\<rparr>))))))"

definition decode_pods :: "json \<Rightarrow> pod list py_result" where
  "decode_pods pods =
     bind_err (py_get pods ''items'' jempty_arr) (\<lambda>iv.
     bind_err (py_iter iv) (traverse_err decode_pod))"

section \<open>Properties of the workload probe\<close>

subsection \<open>The counting loops in closed form\<close>

lemma count_containers_eq [count_simps]:
  "count_containers st cs =
     st\<lparr>ps_crash_loop_backoff := ps_crash_loop_backoff st
          + length (filter (\<lambda>c. cs_reason c = JStr ''CrashLoopBackOff'') cs)\<rparr>"
  by (induction cs arbitrary: st) auto

lemma classify_phase_fields [count_simps]:
  "ps_total (classify_phase st ph) = ps_total st"
  "ps_crash_loop_backoff (classify_phase st ph) = ps_crash_loop_backoff st"
  "ps_running (classify_phase st ph) = ps_running st + (if ph = JStr ''Running'' then 1 else 0)"
  "ps_pending (classify_phase st ph) = ps_pending st + (if ph = JStr ''Pending'' then 1 else 0)"
  "ps_failed (classify_phase st ph) = ps_failed st + (if ph = JStr ''Failed'' then 1 else 0)"
  by (simp_all add: classify_phase_def)

lemma count_pods_eq [count_simps]:
  "count_pods st ps =
     \<lparr>ps_total = ps_total st + length ps,
      ps_running = ps_running st + phase_count ''Running'' ps,
      ps_pending = ps_pending st + phase_count ''Pending'' ps,
      ps_failed = ps_failed st + phase_count ''Failed'' ps,
      ps_crash_loop_backoff = ps_crash_loop_backoff st + sum_list (map crash_containers ps)\<rparr>"
  by (induction ps arbitrary: st)
     (auto simp: count_containers_eq classify_phase_fields phase_count_def crash_containers_def)

text \<open>
  C13.  The workload probe counts every pod in \<open>total\<close>, every pod whose phase is
  exactly the string \<open>Running\<close>, \<open>Pending\<close> or \<open>Failed\<close> in the matching bucket,
  and in \<open>crash_loop_backoff\<close> every container status (not every pod) whose
  waiting reason is \<open>CrashLoopBackOff\<close>.
\<close>

theorem check_pod_status_t_counts:
  "check_pod_status_t ps =
     \<lparr>ps_total = length ps,
      ps_running = phase_count ''Running'' ps,
      ps_pending = phase_count ''Pending'' ps,
      ps_failed = phase_count ''Failed'' ps,
      ps_crash_loop_backoff = sum_list (map crash_containers ps)\<rparr>"
  by (simp add: check_pod_status_t_def count_pods_eq pod_status_init_def)

lemma phase_counts_recognised:
  "phase_count ''Running'' ps + phase_count ''Pending'' ps + phase_count ''Failed'' ps
     = length (filter (\<lambda>p. recognised_phase (pod_phase p)) ps)"
  by (induction ps) (auto simp: phase_count_def recognised_phase_def)

text \<open>
  C14.  Each pod lands in at most one phase bucket:
  \<open>running + pending + failed \<le> total\<close>.
\<close>

theorem pod_buckets_le_total:
  "ps_running (check_pod_status_t ps) + ps_pending (check_pod_status_t ps)
     + ps_failed (check_pod_status_t ps) \<le> ps_total (check_pod_status_t ps)"
  by (simp add: check_pod_status_t_counts phase_counts_recognised)

text \<open>
  C15.  The three buckets add up to \<open>total\<close> exactly when every pod's phase is one
  of the three recognised strings; a pod in any other phase (\<open>Succeeded\<close>,
  \<open>Unknown\<close>, a missing phase) is counted in \<open>total\<close> only.
\<close>

theorem pod_buckets_eq_total_iff:
  "ps_running (check_pod_status_t ps) + ps_pending (check_pod_status_t ps)
     + ps_failed (check_pod_status_t ps) = ps_total (check_pod_status_t ps)
   \<longleftrightarrow> (\<forall>p \<in> set ps. recognised_phase (pod_phase p))"
  by (simp add: check_pod_status_t_counts phase_counts_recognised length_filter_eq_length)

theorem pod_buckets_eq_total_iff_witness:
  "recognised_phase (pod_phase \<lparr>pod_phase = JStr ''Pending'', pod_containers = []\<rparr>) \<and>
   ps_running (check_pod_status_t [\<lparr>pod_phase = JStr ''Pending'', pod_containers = []\<rparr>])
   + ps_pending (check_pod_status_t [\<lparr>pod_phase = JStr ''Pending'', pod_containers = []\<rparr>])
   + ps_failed (check_pod_status_t [\<lparr>pod_phase = JStr ''Pending'', pod_containers = []\<rparr>])
   = ps_total (check_pod_status_t [\<lparr>pod_phase = JStr ''Pending'', pod_containers = []\<rparr>])"
  using pod_buckets_eq_total_iff [of "[\<lparr>pod_phase = JStr ''Pending'', pod_containers = []\<rparr>]"]
  by (simp add: recognised_phase_def)

text \<open>
  C16.  \<open>crash_loop_backoff\<close> is at least the number of pods with a container
  waiting in \<open>CrashLoopBackOff\<close>, and equals it exactly when no pod has two such
  containers: the counter counts containers, where the specification counts a
  restart-looping pod once.
\<close>

theorem crash_loop_per_container:
  "length (filter (\<lambda>p. 0 < crash_containers p) ps) \<le> ps_crash_loop_backoff (check_pod_status_t ps) \<and>
   (ps_crash_loop_backoff (check_pod_status_t ps) = length (filter (\<lambda>p. 0 < crash_containers p) ps)
    \<longleftrightarrow> (\<forall>p \<in> set ps. crash_containers p \<le> 1))"
  by (simp add: check_pod_status_t_counts count_positive_le_sum_list sum_list_map_eq_count_positive)

theorem crash_loop_per_container_witness:
  "crash_containers \<lparr>pod_phase = JStr ''Running'', pod_containers = [\<lparr>cs_reason = JStr ''CrashLoopBackOff''\<rparr>]\<rparr> \<le> 1 \<and> crash_containers \<lparr>pod_phase = JStr ''Pending'', pod_containers = []\<rparr> \<le> 1 \<and>
   ps_crash_loop_backoff (check_pod_status_t [\<lparr>pod_phase = JStr ''Running'', pod_containers = [\<lparr>cs_reason = JStr ''CrashLoopBackOff''\<rparr>]\<rparr>, \<lparr>pod_phase = JStr ''Pending'', pod_containers = []\<rparr>])
     = length (filter (\<lambda>p. 0 < crash_containers p) [\<lparr>pod_phase = JStr ''Running'', pod_containers = [\<lparr>cs_reason = JStr ''CrashLoopBackOff''\<rparr>]\<rparr>, \<lparr>pod_phase = JStr ''Pending'', pod_containers = []\<rparr>])"
  using crash_loop_per_container [of "[\<lparr>pod_phase = JStr ''Running'', pod_containers = [\<lparr>cs_reason = JStr ''CrashLoopBackOff''\<rparr>]\<rparr>, \<lparr>pod_phase = JStr ''Pending'', pod_containers = []\<rparr>]"]
  by (simp add: crash_containers_def)

subsection \<open>Refinement: the JSON loops are the typed loops after decoding\<close>

lemma count_containers_j_refines:
  "count_containers_j st cs =
     bind_err (traverse_err decode_container cs) (\<lambda>conts. Inr (count_containers st conts))"
  by (induction cs arbitrary: st) (auto simp: decode_container_def bind_err_def split: sum.splits)

lemma count_pods_j_refines:
  "count_pods_j st ps = bind_err (traverse_err decode_pod ps) (\<lambda>pods. Inr (count_pods st pods))"
  by (induction ps arbitrary: st)
     (auto simp: decode_pod_def count_containers_j_refines bind_err_def split: sum.splits)

text \<open>
  C17.  On any document, the source's \<open>check_pod_status\<close> raises exactly when
  decoding the pod records raises, with the same exception, and otherwise
  returns the typed probe's counts for the decoded pods.
\<close>

theorem check_pod_status_refines:
  "check_pod_status js = bind_err (decode_pods js) (\<lambda>ps. Inr (check_pod_status_t ps))"
  by (auto simp: check_pod_status_def decode_pods_def check_pod_status_t_def
                 count_pods_j_refines bind_err_def split: sum.splits)

end
