(* ===== verification/Endpoint_Probe.thy ===== *)
theory Endpoint_Probe
  imports Json_Model
begin

text \<open>
  The endpoint probe, \<open>check_service_endpoints\<close> of
  \<open>src/automation/health_check.py\<close> (lines 93--110).  The code first builds the
  dictionary \<open>endpoint_map\<close> from endpoint names to "has at least one subset",
  later entries overwriting earlier ones, then walks the services in order and
  collects the name of every service whose name is missing from the dictionary
  or maps to \<open>False\<close>.  A name is whatever \<open>metadata.name\<close> holds (\<open>None\<close>
  when missing); using it as a key raises \<open>TypeError\<close> when it is a list or a
  dict.  The dictionary is a map on normalised keys (\<open>key_norm\<close>).
\<close>

section \<open>Typed layer\<close>

record service =
  svc_name :: pykey

record endpoint =
  ep_name :: pykey
  ep_subsets :: nat

type_synonym endpoint_map = "pykey \<rightharpoonup> bool"

text \<open>\<open>endpoint_map.get(name, False)\<close>.\<close>

definition has_endpoints :: "endpoint_map \<Rightarrow> pykey \<Rightarrow> bool" where
  "has_endpoints m k = (case m (key_norm k) of None \<Rightarrow> False | Some b \<Rightarrow> b)"

text \<open>Lines 99--102: \<open>endpoint_map[name] = len(subsets) > 0\<close> for each endpoint.\<close>

fun build_endpoint_map :: "endpoint_map \<Rightarrow> endpoint list \<Rightarrow> endpoint_map" where
  "build_endpoint_map m [] = m"
| "build_endpoint_map m (e # es) =
     build_endpoint_map (m(key_norm (ep_name e) \<mapsto> 0 < ep_subsets e)) es"

text \<open>Lines 104--108: the services whose lookup gives no endpoints, in order.\<close>

fun collect_without :: "endpoint_map \<Rightarrow> pykey list \<Rightarrow> service list \<Rightarrow> pykey list" where
  "collect_without m acc [] = acc"
| "collect_without m acc (s # ss) =
     collect_without m (if \<not> has_endpoints m (svc_name s) then acc @ [svc_name s] else acc) ss"

definition check_service_endpoints_t :: "service list \<Rightarrow> endpoint list \<Rightarrow> pykey list" where
  "check_service_endpoints_t ss es = collect_without (build_endpoint_map Map.empty es) [] ss"

text \<open>Reference: the last endpoint record bearing a name, as the dictionary keeps it.\<close>

definition last_endpoint :: "endpoint list \<Rightarrow> pykey \<Rightarrow> endpoint option" where
  "last_endpoint es k = find (\<lambda>e. key_norm (ep_name e) = key_norm k) (rev es)"

section \<open>JSON layer\<close>

fun build_endpoint_map_j :: "endpoint_map \<Rightarrow> json list \<Rightarrow> endpoint_map py_result" where
  "build_endpoint_map_j m [] = Inr m"
| "build_endpoint_map_j m (ep # eps) =
     bind_err (py_get ep ''metadata'' jempty_obj) (\<lambda>md.
     bind_err (py_get md ''name'' JNull) (\<lambda>name.
     bind_err (py_get ep ''subsets'' jempty_arr) (\<lambda>subsets.
     bind_err (py_len subsets) (\<lambda>n.
     bind_err (py_key name) (\<lambda>k.
       build_endpoint_map_j (m(key_norm k \<mapsto> 0 < n)) eps)))))"

fun collect_without_j :: "endpoint_map \<Rightarrow> json list \<Rightarrow> json list \<Rightarrow> json list py_result" where
  "collect_without_j m acc [] = Inr acc"
| "collect_without_j m acc (svc # ss) =
     bind_err (py_get svc ''metadata'' jempty_obj) (\<lambda>md.
     bind_err (py_get md ''name'' JNull) (\<lambda>name.
     bind_err (py_key name) (\<lambda>k.
       collect_without_j m (if \<not> has_endpoints m k then acc @ [name] else acc) ss)))"

text \<open>
  The two documents are those of \<open>kubectl get services\<close> and \<open>kubectl get
  endpoints\<close>; the endpoints are read first (line 99), the services after.
\<close>

definition check_service_endpoints :: "json \<Rightarrow> json \<Rightarrow> json list py_result" where
  "check_service_endpoints services endpoints =
     bind_err (py_get endpoints ''items'' jempty_arr) (\<lambda>ev.
     bind_err (py_iter ev) (\<lambda>eps.
     bind_err (build_endpoint_map_j Map.empty eps) (\<lambda>m.
     bind_err (py_get services ''items'' jempty_arr) (\<lambda>sv.
     bind_err (py_iter sv) (\<lambda>ss. collect_without_j m [] ss)))))"

section \<open>Decoding and encoding\<close>

definition decode_endpoint :: "json \<Rightarrow> endpoint py_result" where
  "decode_endpoint ep =
     bind_err (py_get ep ''metadata'' jempty_obj) (\<lambda>md.
     bind_err (py_get md ''name'' JNull) (\<lambda>name.
     bind_err (py_get ep ''subsets'' jempty_arr) (\<lambda>subsets.
     bind_err (py_len subsets) (\<lambda>n.
     bind_err (py_key name) (\<lambda>k. Inr \<lparr>ep_name = k, ep_subsets = n\<rparr>)))))"

definition decode_service :: "json \<Rightarrow> service py_result" where
  "decode_service svc =
     bind_err (py_get svc ''metadata'' jempty_obj) (\<lambda>md.
     bind_err (py_get md ''name'' JNull) (\<lambda>name.
     bind_err (py_key name) (\<lambda>k. Inr \<lparr>svc_name = k\<rparr>)))"

definition decode_items :: "(json \<Rightarrow> 'a py_result) \<Rightarrow> json \<Rightarrow> 'a list py_result" where
  "decode_items dec doc =
     bind_err (py_get doc ''items'' jempty_arr) (\<lambda>iv. bind_err (py_iter iv) (traverse_err dec))"

section \<open>Properties of the endpoint probe\<close>

subsection \<open>The dictionary and the collecting loop in closed form\<close>

lemma build_endpoint_map_eq:
  "build_endpoint_map m es =
     m ++ map_of (rev (map (\<lambda>e. (key_norm (ep_name e), 0 < ep_subsets e)) es))"
  by (induction es arbitrary: m) (auto simp: map_add_upd_left map_of_append)

lemma collect_without_eq:
  "collect_without m acc ss =
     acc @ map svc_name (filter (\<lambda>s. \<not> has_endpoints m (svc_name s)) ss)"
  by (induction ss arbitrary: acc) auto

lemma map_of_rev_last:
  "map_of (rev (map (\<lambda>e. (key_norm (ep_name e), 0 < ep_subsets e)) es)) (key_norm k)
     = map_option (\<lambda>e. 0 < ep_subsets e) (last_endpoint es k)"
  by (induction es rule: rev_induct) (auto simp: last_endpoint_def)

text \<open>
  C21.  The dictionary built from the endpoint list maps a name to "has subsets"
  of the last endpoint record with that name (Python equality of keys), and
  holds no entry for a name no endpoint bears: later entries overwrite earlier ones.
\<close>

theorem endpoint_map_last_wins:
  "build_endpoint_map Map.empty es (key_norm k) =
     map_option (\<lambda>e. 0 < ep_subsets e) (last_endpoint es k)"
  by (simp add: build_endpoint_map_eq map_of_rev_last)

lemma has_endpoints_built:
  "has_endpoints (build_endpoint_map Map.empty es) k \<longleftrightarrow>
     (case last_endpoint es k of None \<Rightarrow> False | Some e \<Rightarrow> 0 < ep_subsets e)"
  by (simp add: has_endpoints_def build_endpoint_map_eq map_of_rev_last split: option.splits)

text \<open>
  C18.  The probe returns, in the order of the service list, the name of every
  service for which no endpoint record bears its name or the last one that does
  has no subsets.
\<close>

theorem check_service_endpoints_t_eq:
  "check_service_endpoints_t ss es =
     map svc_name (filter (\<lambda>s. case last_endpoint es (svc_name s) of
                                  None \<Rightarrow> True | Some e \<Rightarrow> ep_subsets e = 0) ss)"
  unfolding check_service_endpoints_t_def collect_without_eq has_endpoints_built
  by (auto intro!: arg_cong [where f = "map svc_name"] filter_cong split: option.splits)

text \<open>
  C19.  A name is reported exactly when it is the name of some service and it is
  absent from the endpoint dictionary or maps to an endpoint with zero subsets.
\<close>

theorem services_without_endpoints_iff:
  "k \<in> set (check_service_endpoints_t ss es) \<longleftrightarrow>
     k \<in> svc_name ` set ss \<and>
     (case last_endpoint es k of None \<Rightarrow> True | Some e \<Rightarrow> ep_subsets e = 0)"
  by (auto simp: check_service_endpoints_t_eq)

text \<open>
  C20.  The report is a subsequence of the service names: it keeps their input
  order, so the output is deterministic for display.
\<close>

theorem services_without_endpoints_subseq:
  "subseq (check_service_endpoints_t ss es) (map svc_name ss)"
  by (simp add: check_service_endpoints_t_eq subseq_map)

subsection \<open>Refinement: the JSON loops are the typed loops after decoding\<close>

lemma build_endpoint_map_j_refines:
  "build_endpoint_map_j m eps =
     bind_err (traverse_err decode_endpoint eps) (\<lambda>es. Inr (build_endpoint_map m es))"
  by (induction eps arbitrary: m) (auto simp: decode_endpoint_def bind_err_def split: sum.splits)

lemma collect_without_j_eq:
  "collect_without_j m acc svcs =
     bind_err (traverse_err decode_service svcs) (\<lambda>ss.
       Inr (acc @ map (\<lambda>s. key_json (svc_name s)) (filter (\<lambda>s. \<not> has_endpoints m (svc_name s)) ss)))"
  by (induction svcs arbitrary: acc)
     (auto simp: decode_service_def bind_err_def dest!: key_json_py_key split: sum.splits)

text \<open>
  C22.  On any two documents, the source's \<open>check_service_endpoints\<close> raises
  exactly when decoding the endpoint records, and then the service records,
  raises, and otherwise returns the typed probe's names as the JSON values the
  documents hold.
\<close>

theorem check_service_endpoints_refines:
  "check_service_endpoints svcs eps =
     bind_err (decode_items decode_endpoint eps) (\<lambda>es.
     bind_err (decode_items decode_service svcs) (\<lambda>ss.
       Inr (map key_json (check_service_endpoints_t ss es))))"
  by (auto simp: check_service_endpoints_def decode_items_def check_service_endpoints_t_def
                 build_endpoint_map_j_refines collect_without_j_eq collect_without_eq
                 bind_err_def split: sum.splits)

end
