(* ===== verification/Health_Check.thy ===== *)
theory Health_Check
  imports Node_Probe Pod_Probe Endpoint_Probe
begin

text \<open>
  The aggregator: \<open>run_kubectl_command\<close>, \<open>check_cluster_connectivity\<close>,
  \<open>run_health_check\<close> and the command-line entry point of
  \<open>src/automation/health_check.py\<close> (lines 12--39 and 112--179).  The cluster is
  an input: what each \<open>kubectl\<close> invocation does (its exit status and standard
  output) is a field of the record \<open>cluster\<close>.  A run is the list of report
  lines the script prints, in order, and its outcome: \<open>sys.exit(n)\<close>, or an
  exception that escapes, which ends the interpreter with status 1.
\<close>

section \<open>The collaborator: kubectl invocations\<close>

text \<open>The result of one \<open>subprocess.run(['kubectl', ...], check=True)\<close>.\<close>

datatype kubectl_result =
    KubectlMissing          \<comment> \<open>no \<open>kubectl\<close> executable: \<open>FileNotFoundError\<close>\<close>
  | KubectlFailed           \<comment> \<open>non-zero exit status: \<open>CalledProcessError\<close>\<close>
  | KubectlBadJson          \<comment> \<open>exit 0, standard output is not JSON\<close>
  | KubectlJson json        \<comment> \<open>exit 0, standard output parses to the value\<close>

datatype connectivity = ConnOk | ConnFailed | ConnMissing

record cluster =
  cl_connectivity :: connectivity                  \<comment> \<open>\<open>kubectl cluster-info\<close>\<close>
  cl_nodes :: kubectl_result                       \<comment> \<open>\<open>kubectl get nodes -o json\<close>\<close>
  cl_pods :: "string \<Rightarrow> kubectl_result"            \<comment> \<open>\<open>kubectl get pods -n ns -o json\<close>\<close>
  cl_services :: "string \<Rightarrow> kubectl_result"        \<comment> \<open>\<open>kubectl get services -n ns -o json\<close>\<close>
  cl_endpoints :: "string \<Rightarrow> kubectl_result"       \<comment> \<open>\<open>kubectl get endpoints -n ns -o json\<close>\<close>

text \<open>The printed report, one constructor per \<open>print\<close> of the source.\<close>

datatype report_line =
    L_title | L_rule
  | L_kubectl_error | L_parse_error
  | L_conn_header | L_conn_ok | L_conn_fail
  | L_nodes_header | L_nodes_total nat | L_nodes_ready nat | L_nodes_not_ready nat | L_nodes_warning
  | L_pods_header string | L_pods_total nat | L_pods_running nat | L_pods_pending nat
  | L_pods_failed nat | L_pods_crash nat | L_pods_warning
  | L_svc_header string | L_svc_missing "string list" | L_svc_all_ok
  | L_healthy | L_unhealthy

datatype outcome = Exit nat | Uncaught py_error

fun exit_status :: "outcome \<Rightarrow> nat" where
  "exit_status (Exit n) = n"
| "exit_status (Uncaught e) = 1"

text \<open>Lines 12--27: errors of the command and of the JSON parser give \<open>{}\<close>.\<close>

fun run_kubectl_command :: "kubectl_result \<Rightarrow> (report_line, json) run" where
  "run_kubectl_command KubectlMissing = ([], Inl FileNotFoundError)"
| "run_kubectl_command KubectlFailed = ([L_kubectl_error], Inr jempty_obj)"
| "run_kubectl_command KubectlBadJson = ([L_parse_error], Inr jempty_obj)"
| "run_kubectl_command (KubectlJson j) = ([], Inr j)"

text \<open>Lines 29--39: only \<open>CalledProcessError\<close> is caught.\<close>

fun check_cluster_connectivity :: "cluster \<Rightarrow> bool py_result" where
  "check_cluster_connectivity c =
     (case cl_connectivity c of
        ConnOk \<Rightarrow> Inr True | ConnFailed \<Rightarrow> Inr False | ConnMissing \<Rightarrow> Inl FileNotFoundError)"

section \<open>The report and the verdict\<close>

definition node_report :: "node_status \<Rightarrow> report_line list" where
  "node_report st =
     [L_nodes_total (ns_total st), L_nodes_ready (ns_ready st), L_nodes_not_ready (ns_not_ready st)]
     @ (if 0 < ns_not_ready st then [L_nodes_warning] else [])"

definition pod_report :: "pod_status \<Rightarrow> report_line list" where
  "pod_report st =
     [L_pods_total (ps_total st), L_pods_running (ps_running st), L_pods_pending (ps_pending st),
      L_pods_failed (ps_failed st), L_pods_crash (ps_crash_loop_backoff st)]
     @ (if 0 < ps_failed st \<or> 0 < ps_crash_loop_backoff st then [L_pods_warning] else [])"

text \<open>\<open>', '.join(names)\<close> accepts strings only.\<close>

fun py_str :: "json \<Rightarrow> string py_result" where
  "py_str (JStr s) = Inr s"
| "py_str _ = Inl TypeError"

definition service_report :: "json list \<Rightarrow> (report_line, unit) run" where
  "service_report missing =
     (if missing \<noteq> []
      then (case traverse_err py_str missing of
              Inl e \<Rightarrow> ([], Inl e)
            | Inr names \<Rightarrow> ([L_svc_missing names], Inr ()))
      else ([L_svc_all_ok], Inr ()))"

text \<open>Lines 158--163.\<close>

definition is_healthy :: "node_status \<Rightarrow> pod_status \<Rightarrow> json list \<Rightarrow> bool" where
  "is_healthy nst pst missing \<longleftrightarrow>
     ns_not_ready nst = 0 \<and> ps_failed pst = 0 \<and> ps_crash_loop_backoff pst = 0 \<and> length missing = 0"

section \<open>The health check\<close>

text \<open>Lines 125--163: the probes after the connectivity check, in source order.\<close>

definition health_body :: "cluster \<Rightarrow> string \<Rightarrow> (report_line, bool) run" where
  "health_body c ns =
     bind_run (emit [L_nodes_header]) (\<lambda>_.
     bind_run (run_kubectl_command (cl_nodes c)) (\<lambda>nodes.
     bind_run (lift_err (check_node_status nodes)) (\<lambda>nst.
     bind_run (emit (node_report nst)) (\<lambda>_.
     bind_run (emit [L_pods_header ns]) (\<lambda>_.
     bind_run (run_kubectl_command (cl_pods c ns)) (\<lambda>pods.
     bind_run (lift_err (check_pod_status pods)) (\<lambda>pst.
     bind_run (emit (pod_report pst)) (\<lambda>_.
     bind_run (emit [L_svc_header ns]) (\<lambda>_.
     bind_run (run_kubectl_command (cl_services c ns)) (\<lambda>svcs.
     bind_run (run_kubectl_command (cl_endpoints c ns)) (\<lambda>eps.
     bind_run (lift_err (check_service_endpoints svcs eps)) (\<lambda>missing.
     bind_run (service_report missing) (\<lambda>_.
     bind_run (emit [L_rule]) (\<lambda>_.
       ([], Inr (is_healthy nst pst missing))))))))))))))))"

text \<open>Lines 165--170: the verdict line and \<open>sys.exit\<close>.\<close>

fun finish :: "report_line list \<Rightarrow> (report_line, bool) run \<Rightarrow> report_line list \<times> outcome" where
  "finish out (body, Inl e) = (out @ body, Uncaught e)"
| "finish out (body, Inr h) =
     (out @ body @ [if h then L_healthy else L_unhealthy], Exit (if h then 0 else 1))"

text \<open>Lines 112--123: the banner, then the connectivity check, which ends the run with
  \<open>sys.exit(1)\<close> when the cluster cannot be reached.\<close>

definition run_health_check :: "cluster \<Rightarrow> string \<Rightarrow> report_line list \<times> outcome" where
  "run_health_check c ns =
     (let hdr = [L_title, L_rule, L_conn_header] in
      case check_cluster_connectivity c of
        Inl e \<Rightarrow> (hdr, Uncaught e)
      | Inr False \<Rightarrow> (hdr @ [L_conn_fail], Exit 1)
      | Inr True \<Rightarrow> finish (hdr @ [L_conn_ok]) (health_body c ns))"

text \<open>Lines 172--179: \<open>--namespace\<close>, default \<open>default\<close>.\<close>

definition health_main :: "cluster \<Rightarrow> string option \<Rightarrow> report_line list \<times> outcome" where
  "health_main c arg = run_health_check c (case arg of None \<Rightarrow> ''default'' | Some ns \<Rightarrow> ns)"

section \<open>What the probes observe\<close>

text \<open>
  The typed snapshot the probes read from the cluster, queried and decoded in the
  order of the source; an exception on the way is the one the run raises.
\<close>

definition kubectl_doc :: "kubectl_result \<Rightarrow> json py_result" where
  "kubectl_doc r = snd (run_kubectl_command r)"

definition observe ::
  "cluster \<Rightarrow> string \<Rightarrow> (node list \<times> pod list \<times> service list \<times> endpoint list) py_result" where
  "observe c ns =
     bind_err (kubectl_doc (cl_nodes c)) (\<lambda>nj. bind_err (decode_nodes nj) (\<lambda>nodes.
     bind_err (kubectl_doc (cl_pods c ns)) (\<lambda>pj. bind_err (decode_pods pj) (\<lambda>pods.
     bind_err (kubectl_doc (cl_services c ns)) (\<lambda>sj.
     bind_err (kubectl_doc (cl_endpoints c ns)) (\<lambda>ej.
     bind_err (decode_items decode_endpoint ej) (\<lambda>eps.
     bind_err (decode_items decode_service sj) (\<lambda>svcs.
       Inr (nodes, pods, svcs, eps)))))))))"

text \<open>The verdict rule of the specification over the typed probe results.\<close>

definition verdict_t :: "node list \<Rightarrow> pod list \<Rightarrow> service list \<Rightarrow> endpoint list \<Rightarrow> bool" where
  "verdict_t nodes pods svcs eps \<longleftrightarrow>
     ns_not_ready (check_node_status_t nodes) = 0 \<and>
     ps_failed (check_pod_status_t pods) = 0 \<and>
     ps_crash_loop_backoff (check_pod_status_t pods) = 0 \<and>
     check_service_endpoints_t svcs eps = []"

subsection \<open>Example clusters\<close>

text \<open>A cluster that cannot be reached, and a reachable one whose every resource query fails.\<close>

definition down_cluster :: cluster where
  "down_cluster = \<lparr>cl_connectivity = ConnFailed, cl_nodes = KubectlMissing,
     cl_pods = (\<lambda>_. KubectlMissing), cl_services = (\<lambda>_. KubectlMissing),
     cl_endpoints = (\<lambda>_. KubectlMissing)\<rparr>"

definition blind_cluster :: cluster where
  "blind_cluster = \<lparr>cl_connectivity = ConnOk, cl_nodes = KubectlFailed,
     cl_pods = (\<lambda>_. KubectlFailed), cl_services = (\<lambda>_. KubectlFailed),
     cl_endpoints = (\<lambda>_. KubectlFailed)\<rparr>"

text \<open>
  A reachable cluster with one service that has no \<open>metadata.name\<close> and no
  endpoints, and one where the \<open>kubectl\<close> executable is missing.
\<close>

definition nameless_cluster :: cluster where
  "nameless_cluster = \<lparr>cl_connectivity = ConnOk, cl_nodes = KubectlJson (JObj []),
     cl_pods = (\<lambda>_. KubectlJson (JObj [])),
     cl_services = (\<lambda>_. KubectlJson (JObj [(''items'', JArr [JObj []])])),
     cl_endpoints = (\<lambda>_. KubectlJson (JObj []))\<rparr>"

definition no_kubectl_cluster :: cluster where
  "no_kubectl_cluster = down_cluster\<lparr>cl_connectivity := ConnMissing\<rparr>"

section \<open>Properties of the health check\<close>

subsection \<open>The result of the probes\<close>

lemma kubectl_doc_run: "snd (run_kubectl_command r) = kubectl_doc r"
  by (simp add: kubectl_doc_def)

text \<open>
  The result of the probe section is the specification's verdict rule applied to
  the observed snapshot; an exception comes from a query, a decoding step, or the
  \<open>join\<close> of the names of services without endpoints.
\<close>

lemma health_body_result:
  "snd (health_body c ns) =
     bind_err (observe c ns) (\<lambda>(nodes, pods, svcs, eps).
       bind_err (snd (service_report (map key_json (check_service_endpoints_t svcs eps))))
         (\<lambda>_. Inr (verdict_t nodes pods svcs eps)))"
  by (simp add: health_body_def observe_def emit_def lift_err_def kubectl_doc_run
       check_node_status_def decode_nodes_def count_nodes_j_refines
       check_pod_status_def decode_pods_def count_pods_j_refines
       check_service_endpoints_def decode_items_def build_endpoint_map_j_refines
       collect_without_j_eq bind_err_def check_service_endpoints_t_def collect_without_eq
       is_healthy_def verdict_t_def check_node_status_t_def check_pod_status_t_def o_def
       split: sum.splits)

lemma finish_exit_zero:
  "exit_status (snd (finish out r)) = 0 \<longleftrightarrow> snd r = Inr True"
proof (cases r)
  case (Pair body res)
  then show ?thesis by (cases res) auto
qed

lemma finish_exit_le: "exit_status (snd (finish out r)) \<le> 1"
proof (cases r)
  case (Pair body res)
  then show ?thesis by (cases res) auto
qed

lemma service_report_empty: "service_report [] = ([L_svc_all_ok], Inr ())"
  by (simp add: service_report_def)

lemma traverse_py_str_TypeError:
  "\<exists>x \<in> set xs. py_str x = Inl TypeError \<Longrightarrow> traverse_err py_str xs = Inl TypeError"
proof (induction xs)
  case Nil
  then show ?case by simp
next
  case (Cons x xs)
  then show ?case by (cases x) (auto simp: bind_err_def)
qed

lemma finish_Uncaught: "snd r = Inl e \<Longrightarrow> snd (finish out r) = Uncaught e"
  by (cases r) auto

subsection \<open>The verdict and the exit status\<close>

text \<open>
  C1.  The script exits with status 0 exactly when the cluster is reachable, every
  query and decoding step succeeds, and the observed snapshot satisfies the
  verdict rule: no node condition Ready with a status other than True, no Failed
  pod, no container in CrashLoopBackOff and no service without endpoints.
\<close>

theorem health_exit_zero_iff:
  "exit_status (snd (run_health_check c ns)) = 0 \<longleftrightarrow>
     cl_connectivity c = ConnOk \<and>
     (\<exists>nodes pods svcs eps. observe c ns = Inr (nodes, pods, svcs, eps) \<and>
                            verdict_t nodes pods svcs eps)"
proof (cases "cl_connectivity c")
  case ConnOk
  then have "exit_status (snd (run_health_check c ns)) = 0 \<longleftrightarrow> snd (health_body c ns) = Inr True"
    by (simp add: run_health_check_def finish_exit_zero)
  also have "\<dots> \<longleftrightarrow> (\<exists>nodes pods svcs eps. observe c ns = Inr (nodes, pods, svcs, eps) \<and>
                                          verdict_t nodes pods svcs eps)"
    by (auto simp: health_body_result bind_err_def service_report_empty split: sum.splits prod.splits)
       (auto simp: verdict_t_def service_report_empty)
  finally show ?thesis using ConnOk by simp
qed (simp_all add: run_health_check_def)

text \<open>
  C5.  The exit status is 0 or 1, whatever the cluster does, uncaught exceptions
  included.
\<close>

theorem health_exit_status_bound: "exit_status (snd (run_health_check c ns)) \<le> 1"
  using finish_exit_le [of "[L_title, L_rule, L_conn_header, L_conn_ok]" "health_body c ns"]
  by (cases "cl_connectivity c") (simp_all add: run_health_check_def)

text \<open>
  C2.  When \<open>kubectl cluster-info\<close> fails, the run prints the banner and the
  connectivity failure and exits with status 1; no other query is made, so the
  outcome does not depend on anything else the cluster would answer.
\<close>

theorem unreachable_short_circuit:
  assumes "cl_connectivity c = ConnFailed"
  shows "run_health_check c ns = ([L_title, L_rule, L_conn_header, L_conn_fail], Exit 1)"
  using assms by (simp add: run_health_check_def)

theorem unreachable_short_circuit_witness:
  "cl_connectivity down_cluster = ConnFailed \<and>
   run_health_check down_cluster ''default'' = ([L_title, L_rule, L_conn_header, L_conn_fail], Exit 1)"
  using unreachable_short_circuit [of down_cluster "''default''"]
  by (simp add: down_cluster_def)

text \<open>
  C3.  When the cluster is reachable but every resource query fails, each failure
  is printed and then read as the empty document \<open>{}\<close>: all counts are zero and
  the run reports HEALTHY with exit status 0.  A query failure is not kept apart
  from a healthy empty cluster.
\<close>

theorem failed_queries_reported_healthy:
  assumes "cl_connectivity c = ConnOk" and "cl_nodes c = KubectlFailed"
    and "cl_pods c ns = KubectlFailed" and "cl_services c ns = KubectlFailed"
    and "cl_endpoints c ns = KubectlFailed"
  shows "run_health_check c ns =
     ([L_title, L_rule, L_conn_header, L_conn_ok,
       L_nodes_header, L_kubectl_error, L_nodes_total 0, L_nodes_ready 0, L_nodes_not_ready 0,
       L_pods_header ns, L_kubectl_error, L_pods_total 0, L_pods_running 0, L_pods_pending 0,
       L_pods_failed 0, L_pods_crash 0,
       L_svc_header ns, L_kubectl_error, L_kubectl_error, L_svc_all_ok, L_rule, L_healthy], Exit 0)"
  using assms
  by (simp add: run_health_check_def health_body_def emit_def lift_err_def jempty_obj_def
       jempty_arr_def check_node_status_def check_pod_status_def check_service_endpoints_def
       node_report_def pod_report_def service_report_def is_healthy_def
       node_status_init_def pod_status_init_def)

theorem failed_queries_reported_healthy_witness:
  "cl_connectivity blind_cluster = ConnOk \<and> cl_nodes blind_cluster = KubectlFailed \<and>
   cl_pods blind_cluster ''default'' = KubectlFailed \<and>
   cl_services blind_cluster ''default'' = KubectlFailed \<and>
   cl_endpoints blind_cluster ''default'' = KubectlFailed \<and>
   snd (run_health_check blind_cluster ''default'') = Exit 0"
  using failed_queries_reported_healthy [of blind_cluster "''default''"]
  by (simp add: blind_cluster_def)

subsection \<open>The report\<close>

lemma health_body_output:
  assumes "observe c ns = Inr (nodes, pods, svcs, eps)"
  shows "sublist (node_report (check_node_status_t nodes)) (fst (health_body c ns)) \<and>
         sublist (pod_report (check_pod_status_t pods)) (fst (health_body c ns))"
  using assms
  by (auto simp: health_body_def observe_def emit_def lift_err_def kubectl_doc_def bind_run_def
       check_node_status_def decode_nodes_def count_nodes_j_refines
       check_pod_status_def decode_pods_def count_pods_j_refines
       check_node_status_t_def check_pod_status_t_def bind_err_def split: sum.splits)
     (metis append.assoc append_Cons sublist_appendI)+

text \<open>
  C4.  When the cluster is reachable and the snapshot is read, the printed report
  contains the node counts and the pod counts (with their warnings) as contiguous
  blocks, whatever the verdict: the counts are printed before the verdict is
  decided.
\<close>

theorem health_report_full_counts:
  assumes "cl_connectivity c = ConnOk" and "observe c ns = Inr (nodes, pods, svcs, eps)"
  shows "sublist (node_report (check_node_status_t nodes)) (fst (run_health_check c ns)) \<and>
         sublist (pod_report (check_pod_status_t pods)) (fst (run_health_check c ns))"
proof -
  obtain body res where b: "health_body c ns = (body, res)"
    by (cases "health_body c ns")
  have "prefix ([L_title, L_rule, L_conn_header, L_conn_ok] @ body) (fst (run_health_check c ns))"
    using assms(1) b by (cases res) (simp_all add: run_health_check_def)
  then obtain rest where
    "fst (run_health_check c ns) = [L_title, L_rule, L_conn_header, L_conn_ok] @ body @ rest"
    by (auto simp: prefix_def)
  with health_body_output [OF assms(2)] b show ?thesis
    by (simp add: sublist_append_right_mono sublist_Cons_mono)
qed

theorem health_report_full_counts_witness:
  "cl_connectivity blind_cluster = ConnOk \<and>
   observe blind_cluster ''default'' = Inr ([], [], [], []) \<and>
   sublist (node_report (check_node_status_t [])) (fst (run_health_check blind_cluster ''default'')) \<and>
   sublist (pod_report (check_pod_status_t [])) (fst (run_health_check blind_cluster ''default''))"
proof -
  have obs: "observe blind_cluster ''default'' = Inr ([], [], [], [])"
    by (simp add: observe_def blind_cluster_def kubectl_doc_def decode_nodes_def decode_pods_def
                  decode_items_def jempty_obj_def jempty_arr_def)
  have con: "cl_connectivity blind_cluster = ConnOk"
    by (simp add: blind_cluster_def)
  show ?thesis
    using health_report_full_counts [OF con obs] con obs by simp
qed


subsection \<open>Exceptions that end the run\<close>

text \<open>
  C7.  When the \<open>kubectl\<close> executable is missing, \<open>subprocess.run\<close> raises
  \<open>FileNotFoundError\<close> in the connectivity check, which catches only
  \<open>CalledProcessError\<close>: the run prints the banner and dies with the uncaught
  exception (status 1) instead of reporting the cluster unreachable.
\<close>

theorem kubectl_missing_uncaught:
  assumes "cl_connectivity c = ConnMissing"
  shows "run_health_check c ns = ([L_title, L_rule, L_conn_header], Uncaught FileNotFoundError)"
  using assms by (simp add: run_health_check_def)

theorem kubectl_missing_uncaught_witness:
  "cl_connectivity no_kubectl_cluster = ConnMissing \<and>
   run_health_check no_kubectl_cluster ''default''
     = ([L_title, L_rule, L_conn_header], Uncaught FileNotFoundError)"
  using kubectl_missing_uncaught [of no_kubectl_cluster "''default''"]
  by (simp add: no_kubectl_cluster_def down_cluster_def)

text \<open>
  C8.  When a service without endpoints has a name that is not a string (a
  service without \<open>metadata.name\<close> gives \<open>None\<close>), \<open>', '.join\<close> raises
  \<open>TypeError\<close>: the run ends with the uncaught exception, and no verdict is
  reported.
\<close>

theorem unnamed_service_crash:
  assumes "cl_connectivity c = ConnOk" and "observe c ns = Inr (nodes, pods, svcs, eps)"
    and "k \<in> set (check_service_endpoints_t svcs eps)" and "\<forall>s. k \<noteq> KStr s"
  shows "snd (run_health_check c ns) = Uncaught TypeError"
proof -
  have "py_str (key_json k) = Inl TypeError"
    using assms(4) by (cases k) auto
  then have "traverse_err py_str (map key_json (check_service_endpoints_t svcs eps)) = Inl TypeError"
    using assms(3) by (intro traverse_py_str_TypeError) auto
  then have "snd (health_body c ns) = Inl TypeError"
    using assms(2,3) by (auto simp: health_body_result service_report_def)
  then show ?thesis
    using assms(1) by (simp add: run_health_check_def finish_Uncaught)
qed

theorem unnamed_service_crash_witness:
  "cl_connectivity nameless_cluster = ConnOk \<and>
   observe nameless_cluster ''default'' = Inr ([], [], [\<lparr>svc_name = KNone\<rparr>], []) \<and>
   KNone \<in> set (check_service_endpoints_t [\<lparr>svc_name = KNone\<rparr>] []) \<and>
   snd (run_health_check nameless_cluster ''default'') = Uncaught TypeError"
proof -
  have con: "cl_connectivity nameless_cluster = ConnOk"
    by (simp add: nameless_cluster_def)
  have obs: "observe nameless_cluster ''default'' = Inr ([], [], [\<lparr>svc_name = KNone\<rparr>], [])"
    by (simp add: observe_def nameless_cluster_def kubectl_doc_def decode_nodes_def decode_pods_def
                  decode_items_def decode_service_def jempty_obj_def jempty_arr_def)
  have mem: "KNone \<in> set (check_service_endpoints_t [\<lparr>svc_name = KNone\<rparr>] [])"
    by (simp add: check_service_endpoints_t_def has_endpoints_def)
  show ?thesis
    using unnamed_service_crash [OF con obs mem] con obs mem by simp
qed

end
