(* ===== verification/Health_Phases.thy ===== *)
theory Health_Phases
  imports Health_Check
begin

text \<open>
  The specification describes the aggregator as a sequential machine (section 4.5):
  NotStarted, ConnectivityChecked, NodesChecked, WorkloadChecked, EndpointsChecked,
  Verdicted, each probe running only after the previous one succeeded, and a
  failed connectivity check going straight to an unhealthy verdict.  This theory
  states that machine as an inductive step relation whose steps are the source's
  probe calls, each with its \<open>kubectl\<close> query (\<open>nodes_probe\<close>, \<open>pods_probe\<close>,
  \<open>services_probe\<close>), proves its invariants by rule induction, and shows that
  \<open>run_health_check\<close> implements it: the script exits with a status exactly when
  the machine reaches Verdicted with the matching verdict, and raises exactly when
  the machine gets stuck before.
\<close>

section \<open>The probes with their queries\<close>

text \<open>Lines 127, 137 and 149: each probe call, with its \<open>kubectl\<close> queries.\<close>

definition nodes_probe :: "cluster \<Rightarrow> node_status py_result" where
  "nodes_probe c = bind_err (kubectl_doc (cl_nodes c)) check_node_status"

definition pods_probe :: "cluster \<Rightarrow> string \<Rightarrow> pod_status py_result" where
  "pods_probe c ns = bind_err (kubectl_doc (cl_pods c ns)) check_pod_status"

text \<open>The endpoint probe and the report of its result (lines 149--153).\<close>

definition services_probe :: "cluster \<Rightarrow> string \<Rightarrow> json list py_result" where
  "services_probe c ns =
     bind_err (kubectl_doc (cl_services c ns)) (\<lambda>sj.
     bind_err (kubectl_doc (cl_endpoints c ns)) (\<lambda>ej.
     bind_err (check_service_endpoints sj ej) (\<lambda>m.
     bind_err (snd (service_report m)) (\<lambda>_. Inr m))))"

section \<open>The machine\<close>

datatype hc_phase =
    NotStarted | ConnectivityChecked | NodesChecked | WorkloadChecked | EndpointsChecked | Verdicted

record hc_state =
  hc_phase :: hc_phase
  hc_nodes :: "node_status option"
  hc_pods :: "pod_status option"
  hc_missing :: "json list option"
  hc_verdict :: "bool option"

definition hc_init :: hc_state where
  "hc_init = \<lparr>hc_phase = NotStarted, hc_nodes = None, hc_pods = None, hc_missing = None,
              hc_verdict = None\<rparr>"

inductive hc_step :: "cluster \<Rightarrow> string \<Rightarrow> hc_state \<Rightarrow> hc_state \<Rightarrow> bool" for c ns where
  connected:
    "hc_phase s = NotStarted \<Longrightarrow> check_cluster_connectivity c = Inr True \<Longrightarrow>
     hc_step c ns s (s\<lparr>hc_phase := ConnectivityChecked\<rparr>)"
| unreachable:
    "hc_phase s = NotStarted \<Longrightarrow> check_cluster_connectivity c = Inr False \<Longrightarrow>
     hc_step c ns s (s\<lparr>hc_phase := Verdicted, hc_verdict := Some False\<rparr>)"
| nodes:
    "hc_phase s = ConnectivityChecked \<Longrightarrow> nodes_probe c = Inr nst \<Longrightarrow>
     hc_step c ns s (s\<lparr>hc_phase := NodesChecked, hc_nodes := Some nst\<rparr>)"
| pods:
    "hc_phase s = NodesChecked \<Longrightarrow> pods_probe c ns = Inr pst \<Longrightarrow>
     hc_step c ns s (s\<lparr>hc_phase := WorkloadChecked, hc_pods := Some pst\<rparr>)"
| endpoints:
    "hc_phase s = WorkloadChecked \<Longrightarrow> services_probe c ns = Inr m \<Longrightarrow>
     hc_step c ns s (s\<lparr>hc_phase := EndpointsChecked, hc_missing := Some m\<rparr>)"
| verdict:
    "hc_phase s = EndpointsChecked \<Longrightarrow> hc_nodes s = Some nst \<Longrightarrow> hc_pods s = Some pst \<Longrightarrow>
     hc_missing s = Some m \<Longrightarrow>
     hc_step c ns s (s\<lparr>hc_phase := Verdicted, hc_verdict := Some (is_healthy nst pst m)\<rparr>)"

inductive hc_reach :: "cluster \<Rightarrow> string \<Rightarrow> hc_state \<Rightarrow> bool" for c ns where
  start: "hc_reach c ns hc_init"
| step: "hc_reach c ns s \<Longrightarrow> hc_step c ns s t \<Longrightarrow> hc_reach c ns t"

text \<open>The same machine as an executable step function.\<close>

definition hc_next :: "cluster \<Rightarrow> string \<Rightarrow> hc_state \<Rightarrow> hc_state option" where
  "hc_next c ns s =
     (case hc_phase s of
        NotStarted \<Rightarrow>
          (case check_cluster_connectivity c of
             Inr True \<Rightarrow> Some (s\<lparr>hc_phase := ConnectivityChecked\<rparr>)
           | Inr False \<Rightarrow> Some (s\<lparr>hc_phase := Verdicted, hc_verdict := Some False\<rparr>)
           | Inl _ \<Rightarrow> None)
      | ConnectivityChecked \<Rightarrow>
          (case nodes_probe c of
             Inr nst \<Rightarrow> Some (s\<lparr>hc_phase := NodesChecked, hc_nodes := Some nst\<rparr>) | Inl _ \<Rightarrow> None)
      | NodesChecked \<Rightarrow>
          (case pods_probe c ns of
             Inr pst \<Rightarrow> Some (s\<lparr>hc_phase := WorkloadChecked, hc_pods := Some pst\<rparr>) | Inl _ \<Rightarrow> None)
      | WorkloadChecked \<Rightarrow>
          (case services_probe c ns of
             Inr m \<Rightarrow> Some (s\<lparr>hc_phase := EndpointsChecked, hc_missing := Some m\<rparr>) | Inl _ \<Rightarrow> None)
      | EndpointsChecked \<Rightarrow>
          (case (hc_nodes s, hc_pods s, hc_missing s) of
             (Some nst, Some pst, Some m) \<Rightarrow>
               Some (s\<lparr>hc_phase := Verdicted, hc_verdict := Some (is_healthy nst pst m)\<rparr>)
           | _ \<Rightarrow> None)
      | Verdicted \<Rightarrow> None)"

text \<open>
  What a reachable state records: every probe result it holds is the result of
  that probe on the cluster, each phase holds the results of the phases before it,
  and a verdict is either the short-circuit of an unreachable cluster or the
  verdict rule applied to the three probe results.
\<close>

definition hc_history :: "cluster \<Rightarrow> string \<Rightarrow> hc_state \<Rightarrow> bool" where
  "hc_history c ns s \<longleftrightarrow>
     (hc_phase s \<in> {ConnectivityChecked, NodesChecked, WorkloadChecked, EndpointsChecked} \<longrightarrow>
        check_cluster_connectivity c = Inr True) \<and>
     (\<forall>nst. hc_nodes s = Some nst \<longrightarrow> nodes_probe c = Inr nst \<and> check_cluster_connectivity c = Inr True) \<and>
     (\<forall>pst. hc_pods s = Some pst \<longrightarrow> pods_probe c ns = Inr pst) \<and>
     (\<forall>m. hc_missing s = Some m \<longrightarrow> services_probe c ns = Inr m) \<and>
     (hc_phase s \<in> {NodesChecked, WorkloadChecked, EndpointsChecked} \<longrightarrow> hc_nodes s \<noteq> None) \<and>
     (hc_phase s \<in> {WorkloadChecked, EndpointsChecked} \<longrightarrow> hc_pods s \<noteq> None) \<and>
     (hc_phase s = EndpointsChecked \<longrightarrow> hc_missing s \<noteq> None) \<and>
     (hc_phase s = Verdicted \<longleftrightarrow> hc_verdict s \<noteq> None) \<and>
     (\<forall>b. hc_verdict s = Some b \<longrightarrow>
        (check_cluster_connectivity c = Inr False \<and> b = False) \<or>
        (\<exists>nst pst m. hc_nodes s = Some nst \<and> hc_pods s = Some pst \<and> hc_missing s = Some m \<and>
                     b = is_healthy nst pst m))"

section \<open>The machine and its step function agree\<close>

lemma hc_step_next: "hc_step c ns s t \<Longrightarrow> hc_next c ns s = Some t"
  by (induction rule: hc_step.induct) (simp_all add: hc_next_def)

lemma hc_next_step: "hc_next c ns s = Some t \<Longrightarrow> hc_step c ns s t"
  by (auto simp: hc_next_def intro: hc_step.intros
           split: hc_phase.splits sum.splits bool.splits option.splits)

lemma hc_step_iff_next: "hc_step c ns s t \<longleftrightarrow> hc_next c ns s = Some t"
  using hc_step_next hc_next_step by blast

lemma health_body_probes:
  "snd (health_body c ns) =
     bind_err (nodes_probe c) (\<lambda>nst. bind_err (pods_probe c ns) (\<lambda>pst.
       bind_err (services_probe c ns) (\<lambda>m. Inr (is_healthy nst pst m))))"
  by (simp add: health_body_def nodes_probe_def pods_probe_def services_probe_def emit_def lift_err_def
       kubectl_doc_def bind_err_def split: sum.splits)

section \<open>Properties of the machine\<close>

lemma hc_step_history: "hc_step c ns s t \<Longrightarrow> hc_history c ns s \<Longrightarrow> hc_history c ns t"
  by (induction rule: hc_step.induct) (auto simp: hc_history_def)

lemma hc_reach_history: "hc_reach c ns s \<Longrightarrow> hc_history c ns s"
proof (induction rule: hc_reach.induct)
  case start
  then show ?case by (simp add: hc_history_def hc_init_def)
next
  case (step s t)
  then show ?case by (blast intro: hc_step_history)
qed

lemma finish_Exit:
  "snd (finish out r) = Exit k \<longleftrightarrow> (\<exists>h. snd r = Inr h \<and> k = (if h then 0 else 1))"
proof (cases r)
  case (Pair body res)
  then show ?thesis by (cases res) auto
qed

lemma run_health_check_Exit:
  "snd (run_health_check c ns) = Exit k \<longleftrightarrow>
     (check_cluster_connectivity c = Inr False \<and> k = 1) \<or>
     (check_cluster_connectivity c = Inr True \<and>
      (\<exists>nst pst m. nodes_probe c = Inr nst \<and> pods_probe c ns = Inr pst \<and> services_probe c ns = Inr m \<and>
                   k = (if is_healthy nst pst m then 0 else 1)))"
  by (cases "cl_connectivity c")
     (auto simp: run_health_check_def finish_Exit health_body_probes bind_err_eq_Inr)

lemma hc_reach_chain:
  assumes "check_cluster_connectivity c = Inr True" and "nodes_probe c = Inr nst"
    and "pods_probe c ns = Inr pst" and "services_probe c ns = Inr m"
  shows "hc_reach c ns \<lparr>hc_phase = Verdicted, hc_nodes = Some nst, hc_pods = Some pst,
                        hc_missing = Some m, hc_verdict = Some (is_healthy nst pst m)\<rparr>"
proof -
  let ?s1 = "hc_init\<lparr>hc_phase := ConnectivityChecked\<rparr>"
  let ?s2 = "?s1\<lparr>hc_phase := NodesChecked, hc_nodes := Some nst\<rparr>"
  let ?s3 = "?s2\<lparr>hc_phase := WorkloadChecked, hc_pods := Some pst\<rparr>"
  let ?s4 = "?s3\<lparr>hc_phase := EndpointsChecked, hc_missing := Some m\<rparr>"
  have s1: "hc_reach c ns ?s1"
    by (rule hc_reach.step [OF hc_reach.start], rule hc_step.connected [OF _ assms(1)])
       (simp add: hc_init_def)
  have s2: "hc_reach c ns ?s2"
    by (rule hc_reach.step [OF s1], rule hc_step.nodes [OF _ assms(2)]) simp
  have s3: "hc_reach c ns ?s3"
    by (rule hc_reach.step [OF s2], rule hc_step.pods [OF _ assms(3)]) simp
  have s4: "hc_reach c ns ?s4"
    by (rule hc_reach.step [OF s3], rule hc_step.endpoints [OF _ assms(4)]) simp
  have "hc_reach c ns (?s4\<lparr>hc_phase := Verdicted, hc_verdict := Some (is_healthy nst pst m)\<rparr>)"
    by (rule hc_reach.step [OF s4], rule hc_step.verdict) simp_all
  then show ?thesis by (simp add: hc_init_def)
qed

lemma hc_reach_unreachable:
  "check_cluster_connectivity c = Inr False \<Longrightarrow>
   hc_reach c ns (hc_init\<lparr>hc_phase := Verdicted, hc_verdict := Some False\<rparr>)"
  by (rule hc_reach.step [OF hc_reach.start]) (rule hc_step.unreachable, simp_all add: hc_init_def)

text \<open>
  C6.  The script implements the phase machine of the specification: it exits
  with status 0 (resp. 1) exactly when the machine, started in NotStarted,
  reaches Verdicted with a healthy (resp. unhealthy) verdict.
\<close>

theorem run_health_check_refines_phases:
  "(\<exists>s. hc_reach c ns s \<and> hc_phase s = Verdicted \<and> hc_verdict s = Some b) \<longleftrightarrow>
     snd (run_health_check c ns) = Exit (if b then 0 else 1)"
proof
  assume "\<exists>s. hc_reach c ns s \<and> hc_phase s = Verdicted \<and> hc_verdict s = Some b"
  then obtain s where r: "hc_reach c ns s" and v: "hc_verdict s = Some b" by blast
  from hc_reach_history [OF r] v show "snd (run_health_check c ns) = Exit (if b then 0 else 1)"
    unfolding run_health_check_Exit hc_history_def by fastforce
next
  assume "snd (run_health_check c ns) = Exit (if b then 0 else 1)"
  then consider "check_cluster_connectivity c = Inr False" "\<not> b"
    | nst pst m where "check_cluster_connectivity c = Inr True" "nodes_probe c = Inr nst"
        "pods_probe c ns = Inr pst" "services_probe c ns = Inr m" "b = is_healthy nst pst m"
    unfolding run_health_check_Exit by (auto split: if_splits)
  then show "\<exists>s. hc_reach c ns s \<and> hc_phase s = Verdicted \<and> hc_verdict s = Some b"
  proof cases
    case 1
    then show ?thesis using hc_reach_unreachable [of c ns] by (auto simp: hc_init_def)
  next
    case 2
    then show ?thesis using hc_reach_chain [of c nst ns pst m] by fastforce
  qed
qed

end
