(* ===== verification/Ecr_Cleanup.thy ===== *)
theory Ecr_Cleanup
  imports Prelude "HOL-Library.Multiset"
begin

text \<open>
  \<open>cleanup_old_images\<close> of \<open>src/automation/cleanup_ecr.py\<close> (lines 40--110): list
  the images of a repository, read their details, sort them newest first by push
  date, keep the first \<open>keep_latest\<close>, and delete (or, in a dry run, show) those
  of the rest pushed before \<open>now - days_to_keep\<close>.  The boto3 client is the
  environment: what \<open>list_images\<close>, \<open>batch_get_image\<close> and
  \<open>batch_delete_image\<close> return or raise is an input (record \<open>ecr_env\<close>).  The
  run's effect on the registry is the list of digests passed to
  \<open>batch_delete_image\<close>.

  Time is counted in seconds.  A push date from boto3 is a timezone-aware
  \<open>datetime\<close>; a missing \<open>imagePushedAt\<close> makes the sort key the naive
  \<open>datetime.min\<close>, and Python raises \<open>TypeError\<close> when it compares a naive with
  an aware \<open>datetime\<close>.
\<close>

section \<open>Data\<close>

text \<open>An entry of \<open>batch_get_image\<close>'s \<open>images\<close>: the fields the code reads.\<close>

record image =
  img_pushed_at :: "int option"    \<comment> \<open>\<open>imagePushedAt\<close>, aware, in seconds\<close>
  img_digest :: "string option"    \<comment> \<open>\<open>imageId.imageDigest\<close>\<close>
  img_tag :: "string option"       \<comment> \<open>\<open>imageId.imageTag\<close>\<close>

text \<open>The sort key \<open>x.get('imagePushedAt', datetime.min)\<close>.\<close>

datatype push_key = NaiveMin | Aware int

definition push_key :: "image \<Rightarrow> push_key" where
  "push_key i = (case img_pushed_at i of None \<Rightarrow> NaiveMin | Some t \<Rightarrow> Aware t)"

text \<open>\<open>a < b\<close> on two keys.\<close>

fun key_less :: "push_key \<Rightarrow> push_key \<Rightarrow> bool py_result" where
  "key_less NaiveMin NaiveMin = Inr False"
| "key_less (Aware a) (Aware b) = Inr (a < b)"
| "key_less _ _ = Inl TypeError"

section \<open>Sorting by push date, newest first\<close>

text \<open>
  \<open>image_details.sort(key=..., reverse=True)\<close> (line 71).  Python's sort is
  stable, also with \<open>reverse=True\<close>, and compares keys with \<open><\<close> only.  If the
  list holds both a naive and an aware key, the sort raises \<open>TypeError\<close>: a
  comparison sort that orders a list compares every two elements adjacent in its
  output, and some adjacent pair of the output mixes the two kinds.  Otherwise all
  keys are comparable and the result is the stable sort by descending key (all
  naive keys are equal, so a list of undated images keeps its order).
\<close>

definition push_time :: "image \<Rightarrow> int" where
  "push_time i = (case img_pushed_at i of None \<Rightarrow> 0 | Some t \<Rightarrow> t)"

definition mixed_keys :: "image list \<Rightarrow> bool" where
  "mixed_keys imgs \<longleftrightarrow>
     list_ex (\<lambda>i. img_pushed_at i = None) imgs \<and> list_ex (\<lambda>i. img_pushed_at i \<noteq> None) imgs"

definition sort_newest_first :: "image list \<Rightarrow> image list py_result" where
  "sort_newest_first imgs =
     (if mixed_keys imgs then Inl TypeError else Inr (sort_key (\<lambda>i. - push_time i) imgs))"

section \<open>Slicing and the age filter\<close>

text \<open>The index at which \<open>xs[:k]\<close> ends and \<open>xs[k:]\<close> starts (Python slicing).\<close>

definition slice_index :: "int \<Rightarrow> nat \<Rightarrow> nat" where
  "slice_index k n = (if 0 \<le> k then min (nat k) n else nat (max 0 (int n + k)))"

definition images_to_keep :: "int \<Rightarrow> image list \<Rightarrow> image list" where
  "images_to_keep k xs = take (slice_index k (length xs)) xs"

definition images_to_check :: "int \<Rightarrow> image list \<Rightarrow> image list" where
  "images_to_check k xs = drop (slice_index k (length xs)) xs"

text \<open>
  Line 77: \<open>now - timedelta(days=days_to_keep)\<close>.  \<open>timedelta\<close> accepts at
  most 999999999 days, and the result must lie in years 1 to 9999; outside these
  ranges Python raises \<open>OverflowError\<close>.
\<close>

definition min_datetime :: int where
  "min_datetime = -62135596800"       \<comment> \<open>0001-01-01 00:00:00 UTC\<close>

definition max_datetime :: int where
  "max_datetime = 253402300799"       \<comment> \<open>9999-12-31 23:59:59 UTC\<close>

definition cutoff_date :: "int \<Rightarrow> int \<Rightarrow> int py_result" where
  "cutoff_date now days =
     (if 999999999 < \<bar>days\<bar> then Inl OverflowError
      else let c = now - days * 86400 in
           if c < min_datetime \<or> max_datetime < c then Inl OverflowError else Inr c)"

text \<open>Lines 79--83: \<open>if pushed_at and pushed_at < cutoff_date\<close>.\<close>

definition older_than :: "int \<Rightarrow> image \<Rightarrow> bool" where
  "older_than cutoff i = (case img_pushed_at i of None \<Rightarrow> False | Some t \<Rightarrow> t < cutoff)"

definition images_to_delete :: "int \<Rightarrow> image list \<Rightarrow> image list" where
  "images_to_delete cutoff check = filter (older_than cutoff) check"

text \<open>Lines 89--93: the digests of the images to delete, where present.\<close>

definition image_ids_to_delete :: "image list \<Rightarrow> string list" where
  "image_ids_to_delete imgs = List.map_filter img_digest imgs"

section \<open>The cleanup run\<close>

record ecr_env =
  ecr_list_images :: "nat option"            \<comment> \<open>number of image ids; \<open>None\<close>: the paginator raised\<close>
  ecr_image_details :: "image list option"   \<comment> \<open>\<open>batch_get_image\<close>; \<open>None\<close>: it raised\<close>
  ecr_delete_ok :: bool                      \<comment> \<open>whether \<open>batch_delete_image\<close> succeeds\<close>
  ecr_now :: int                             \<comment> \<open>\<open>datetime.now(tz)\<close>, in seconds\<close>

datatype ecr_line =
    E_scanning string | E_error_listing | E_found nat | E_no_images | E_error_details
  | E_keep int nat | E_delete int nat
  | E_dry_run | E_dry_item string | E_dry_more nat
  | E_deleted nat | E_error_deleting

datatype ecr_outcome = Returned | Exited nat | Raised py_error

record ecr_result =
  ecr_output :: "ecr_line list"
  ecr_deleted :: "string list option"   \<comment> \<open>the \<open>imageIds\<close> passed to \<open>batch_delete_image\<close>\<close>
  ecr_outcome :: ecr_outcome

definition dry_run_lines :: "image list \<Rightarrow> ecr_line list" where
  "dry_run_lines dels =
     E_dry_run # map (\<lambda>i. E_dry_item (case img_tag i of None \<Rightarrow> ''untagged'' | Some t \<Rightarrow> t)) (take 5 dels)
     @ (if 5 < length dels then [E_dry_more (length dels - 5)] else [])"

text \<open>Lines 95--110: the dry run, or the deletion and its error handling.\<close>

definition delete_phase ::
  "ecr_env \<Rightarrow> bool \<Rightarrow> image list \<Rightarrow> ecr_line list \<times> string list option \<times> ecr_outcome" where
  "delete_phase env dry dels =
     (if dels = [] then ([], None, Returned)
      else if dry then (dry_run_lines dels, None, Returned)
      else if ecr_delete_ok env
      then ([E_deleted (length dels)], Some (image_ids_to_delete dels), Returned)
      else ([E_error_deleting], Some (image_ids_to_delete dels), Exited 1))"

definition cleanup_old_images ::
  "ecr_env \<Rightarrow> string \<Rightarrow> int \<Rightarrow> int \<Rightarrow> bool \<Rightarrow> ecr_result" where
  "cleanup_old_images env repo days keep dry =
     (case ecr_list_images env of
        None \<Rightarrow> \<lparr>ecr_output = [E_scanning repo, E_error_listing], ecr_deleted = None,
                 ecr_outcome = Exited 1\<rparr>
      | Some n \<Rightarrow>
        if n = 0 then \<lparr>ecr_output = [E_scanning repo, E_found 0, E_no_images], ecr_deleted = None,
                        ecr_outcome = Returned\<rparr>
        else
          let (err, details) = (case ecr_image_details env of
                                  None \<Rightarrow> ([E_error_details], []) | Some ds \<Rightarrow> ([], ds));
              out0 = [E_scanning repo, E_found n] @ err
          in case sort_newest_first details of
               Inl e \<Rightarrow> \<lparr>ecr_output = out0, ecr_deleted = None, ecr_outcome = Raised e\<rparr>
             | Inr srt \<Rightarrow>
               (case cutoff_date (ecr_now env) days of
                  Inl e \<Rightarrow> \<lparr>ecr_output = out0, ecr_deleted = None, ecr_outcome = Raised e\<rparr>
                | Inr cutoff \<Rightarrow>
                    let keep_imgs = images_to_keep keep srt;
                        dels = images_to_delete cutoff (images_to_check keep srt);
                        (out1, deleted, oc) = delete_phase env dry dels
                    in \<lparr>ecr_output = out0 @ [E_keep keep (length keep_imgs), E_delete days (length dels)] @ out1,
                        ecr_deleted = deleted, ecr_outcome = oc\<rparr>))"

text \<open>Lines 112--130: the command line; \<open>--execute\<close> turns the dry run off.\<close>

definition ecr_main :: "ecr_env \<Rightarrow> string \<Rightarrow> int option \<Rightarrow> int option \<Rightarrow> bool \<Rightarrow> ecr_result" where
  "ecr_main env repo days keep execute =
     cleanup_old_images env repo (case days of None \<Rightarrow> 30 | Some d \<Rightarrow> d)
       (case keep of None \<Rightarrow> 10 | Some k \<Rightarrow> k) (\<not> execute)"

subsection \<open>Example registries\<close>

definition img_at :: "int \<Rightarrow> string \<Rightarrow> image" where
  "img_at t d = \<lparr>img_pushed_at = Some t, img_digest = Some d, img_tag = None\<rparr>"

definition tagged_twice :: "image list" where
  "tagged_twice = [\<lparr>img_pushed_at = Some 0, img_digest = Some ''sha256:a'', img_tag = Some ''v1''\<rparr>,
                   \<lparr>img_pushed_at = Some 0, img_digest = Some ''sha256:a'', img_tag = Some ''latest''\<rparr>]"

definition tagged_twice_env :: ecr_env where
  "tagged_twice_env = \<lparr>ecr_list_images = Some 2, ecr_image_details = Some tagged_twice,
     ecr_delete_ok = True, ecr_now = 8640000\<rparr>"

definition mixed_env :: ecr_env where
  "mixed_env = \<lparr>ecr_list_images = Some 2,
     ecr_image_details = Some [img_at 5 ''a'', \<lparr>img_pushed_at = None, img_digest = None, img_tag = None\<rparr>],
     ecr_delete_ok = True, ecr_now = 0\<rparr>"

text \<open>
  Entries as \<open>batch_get_image\<close> returns them, without \<open>imagePushedAt\<close>; and a
  repository with one image, pushed long ago.
\<close>

definition undated :: "string \<Rightarrow> image" where
  "undated d = \<lparr>img_pushed_at = None, img_digest = Some d, img_tag = None\<rparr>"

definition undated_env :: ecr_env where
  "undated_env = \<lparr>ecr_list_images = Some 2, ecr_image_details = Some [undated ''a'', undated ''b''],
     ecr_delete_ok = True, ecr_now = 8640000\<rparr>"

definition single_env :: ecr_env where
  "single_env = \<lparr>ecr_list_images = Some 1, ecr_image_details = Some [img_at 0 ''sha256:b''],
     ecr_delete_ok = True, ecr_now = 8640000\<rparr>"

section \<open>Properties of the cleanup\<close>

subsection \<open>Sorting\<close>

lemma sort_newest_first_set: "sort_newest_first imgs = Inr s \<Longrightarrow> set s = set imgs"
  by (auto simp: sort_newest_first_def split: if_splits)

text \<open>
  The model of the sort raises exactly when two keys of the list cannot be compared.
\<close>

lemma mixed_keys_incomparable:
  "mixed_keys imgs \<longleftrightarrow>
     (\<exists>i \<in> set imgs. \<exists>j \<in> set imgs. key_less (push_key i) (push_key j) = Inl TypeError)"
proof
  assume "mixed_keys imgs"
  then obtain i j where "i \<in> set imgs" "img_pushed_at i = None" "j \<in> set imgs" "img_pushed_at j \<noteq> None"
    by (auto simp: mixed_keys_def list_ex_iff)
  then have "key_less (push_key i) (push_key j) = Inl TypeError"
    by (auto simp: push_key_def)
  with \<open>i \<in> set imgs\<close> \<open>j \<in> set imgs\<close>
  show "\<exists>i \<in> set imgs. \<exists>j \<in> set imgs. key_less (push_key i) (push_key j) = Inl TypeError"
    by blast
next
  assume "\<exists>i \<in> set imgs. \<exists>j \<in> set imgs. key_less (push_key i) (push_key j) = Inl TypeError"
  then obtain i j where "i \<in> set imgs" "j \<in> set imgs" "key_less (push_key i) (push_key j) = Inl TypeError"
    by blast
  then show "mixed_keys imgs"
    by (auto simp: mixed_keys_def list_ex_iff push_key_def split: option.splits)
qed

text \<open>
  C28.  When the sort succeeds, its result is a permutation of the images, in
  non-increasing order of push date, and images with equal push dates keep their
  relative order (stability).
\<close>

theorem sort_newest_first_correct:
  assumes "sort_newest_first imgs = Inr s"
  shows "mset s = mset imgs \<and> sorted_wrt (\<ge>) (map push_time s) \<and>
         (\<forall>t. filter (\<lambda>i. push_time i = t) s = filter (\<lambda>i. push_time i = t) imgs)"
proof -
  from assms have s: "s = sort_key (\<lambda>i. - push_time i) imgs"
    by (simp add: sort_newest_first_def split: if_splits)
  have "sorted (map (\<lambda>i. - push_time i) s)" using s by simp
  then have "sorted_wrt (\<ge>) (map push_time s)"
    by (simp add: sorted_wrt_map sorted_map)
  moreover have "filter (\<lambda>i. push_time i = t) s = filter (\<lambda>i. push_time i = t) imgs" for t
    using sort_key_stable [of "\<lambda>i. - push_time i" "- t" imgs] s by simp
  ultimately show ?thesis using s by simp
qed

theorem sort_newest_first_correct_witness:
  "sort_newest_first [img_at 1 ''a'', img_at 2 ''b''] = Inr [img_at 2 ''b'', img_at 1 ''a''] \<and>
   mset [img_at 2 ''b'', img_at 1 ''a''] = mset [img_at 1 ''a'', img_at 2 ''b''] \<and>
   sorted_wrt (\<ge>) (map push_time [img_at 2 ''b'', img_at 1 ''a''])"
proof -
  have h: "sort_newest_first [img_at 1 ''a'', img_at 2 ''b''] = Inr [img_at 2 ''b'', img_at 1 ''a'']"
    by (simp add: sort_newest_first_def mixed_keys_def push_time_def img_at_def)
  show ?thesis using sort_newest_first_correct [OF h] h by simp
qed

subsection \<open>What is deleted\<close>

lemma cutoff_date_Inr:
  "cutoff_date now days = Inr c \<Longrightarrow> c = now - days * 86400 \<and> min_datetime \<le> c \<and> c \<le> max_datetime"
  by (auto simp: cutoff_date_def Let_def split: if_splits)

lemma image_ids_to_delete_source:
  "d \<in> set (image_ids_to_delete dels) \<Longrightarrow> \<exists>i \<in> set dels. img_digest i = Some d"
  by (auto simp: image_ids_to_delete_def List.map_filter_def)

lemma image_ids_to_delete_complete:
  "i \<in> set dels \<Longrightarrow> img_digest i = Some d \<Longrightarrow> d \<in> set (image_ids_to_delete dels)"
  by (induction dels) (auto simp: image_ids_to_delete_def List.map_filter_def)

lemma cleanup_deleted_Some:
  assumes "ecr_list_images env = Some n" and "0 < n" and "ecr_image_details env = Some details"
    and "sort_newest_first details = Inr srt" and "cutoff_date (ecr_now env) days = Inr cutoff"
    and "images_to_delete cutoff (images_to_check keep srt) \<noteq> []"
  shows "ecr_deleted (cleanup_old_images env repo days keep False)
           = Some (image_ids_to_delete (images_to_delete cutoff (images_to_check keep srt)))"
  using assms by (simp add: cleanup_old_images_def delete_phase_def Let_def)

lemma cleanup_deletes_old_checked:
  assumes "ecr_list_images env = Some n" and "0 < n" and "ecr_image_details env = Some details"
    and "sort_newest_first details = Inr srt" and "cutoff_date (ecr_now env) days = Inr cutoff"
    and "i \<in> set (images_to_check keep srt)" and "older_than cutoff i" and "img_digest i = Some d"
  shows "\<exists>ds. ecr_deleted (cleanup_old_images env repo days keep False) = Some ds \<and> d \<in> set ds"
proof -
  have "i \<in> set (images_to_delete cutoff (images_to_check keep srt))"
    using assms(6,7) by (simp add: images_to_delete_def)
  then show ?thesis
    using cleanup_deleted_Some [OF assms(1-5)] assms(8) image_ids_to_delete_complete
    by (metis empty_iff empty_set)
qed

lemma cleanup_deleted_cases:
  assumes "ecr_deleted (cleanup_old_images env repo days keep dry) = Some ds"
  shows "\<exists>details srt cutoff. ecr_image_details env = Some details \<and>
           sort_newest_first details = Inr srt \<and> cutoff_date (ecr_now env) days = Inr cutoff \<and>
           \<not> dry \<and> images_to_delete cutoff (images_to_check keep srt) \<noteq> [] \<and>
           ds = image_ids_to_delete (images_to_delete cutoff (images_to_check keep srt))"
  using assms
  by (auto simp: cleanup_old_images_def delete_phase_def sort_newest_first_def images_to_delete_def
                 images_to_check_def Let_def
           split: option.splits if_splits sum.splits prod.splits)

text \<open>
  C23.  Every digest passed to \<open>batch_delete_image\<close> is the digest of an image
  the registry reported, with a push date strictly before \<open>now - days_to_keep\<close>
  days; an image without a push date is never deleted.
\<close>

theorem cleanup_deletes_only_old:
  assumes "ecr_deleted (cleanup_old_images env repo days keep dry) = Some ds" and "d \<in> set ds"
  shows "\<exists>details i t. ecr_image_details env = Some details \<and> i \<in> set details \<and>
           img_digest i = Some d \<and> img_pushed_at i = Some t \<and> t < ecr_now env - days * 86400"
proof -
  obtain details srt cutoff where
    det: "ecr_image_details env = Some details" and srt: "sort_newest_first details = Inr srt" and
    cut: "cutoff_date (ecr_now env) days = Inr cutoff" and
    ds: "ds = image_ids_to_delete (images_to_delete cutoff (images_to_check keep srt))"
    using cleanup_deleted_cases [OF assms(1)] by blast
  from assms(2) ds obtain i where
    i: "i \<in> set (images_to_delete cutoff (images_to_check keep srt))" and dig: "img_digest i = Some d"
    using image_ids_to_delete_source by blast
  from i have "i \<in> set srt" and old: "older_than cutoff i"
    by (auto simp: images_to_delete_def images_to_check_def dest: in_set_dropD)
  with srt have "i \<in> set details" by (simp add: sort_newest_first_set)
  moreover from old obtain t where "img_pushed_at i = Some t" and "t < cutoff"
    by (auto simp: older_than_def split: option.splits)
  ultimately show ?thesis
    using det dig cutoff_date_Inr [OF cut] by auto
qed

text \<open>
  C24.  For \<open>keep_latest \<ge> 0\<close>, every deleted digest belongs to an image that
  comes after the first \<open>keep_latest\<close> entries of the sorted list.
\<close>

theorem cleanup_spares_latest:
  assumes "ecr_deleted (cleanup_old_images env repo days keep dry) = Some ds" and "d \<in> set ds"
    and "0 \<le> keep"
  shows "\<exists>details srt i. ecr_image_details env = Some details \<and> sort_newest_first details = Inr srt \<and>
           i \<in> set (drop (nat keep) srt) \<and> img_digest i = Some d"
proof -
  obtain details srt cutoff where
    det: "ecr_image_details env = Some details" and srt: "sort_newest_first details = Inr srt" and
    ds: "ds = image_ids_to_delete (images_to_delete cutoff (images_to_check keep srt))"
    using cleanup_deleted_cases [OF assms(1)] by blast
  from assms(2) ds obtain i where
    i: "i \<in> set (images_to_delete cutoff (images_to_check keep srt))" and dig: "img_digest i = Some d"
    using image_ids_to_delete_source by blast
  have "images_to_check keep srt = drop (nat keep) srt"
    using assms(3) by (simp add: images_to_check_def slice_index_def min_def)
  with i have "i \<in> set (drop (nat keep) srt)"
    by (simp add: images_to_delete_def)
  with det srt dig show ?thesis by blast
qed

text \<open>
  An image listed under two tags: \<open>batch_get_image\<close> returns one entry per tag,
  both with the same digest and push date.
\<close>

lemma tagged_twice_deleted:
  "ecr_deleted (cleanup_old_images tagged_twice_env ''app'' 30 1 False) = Some [''sha256:a'']"
  by (simp add: tagged_twice_env_def tagged_twice_def cleanup_old_images_def sort_newest_first_def
       mixed_keys_def push_time_def cutoff_date_def min_datetime_def max_datetime_def
       images_to_check_def images_to_delete_def older_than_def slice_index_def delete_phase_def
       image_ids_to_delete_def List.map_filter_def)

theorem cleanup_deletes_only_old_witness:
  "ecr_deleted (cleanup_old_images tagged_twice_env ''app'' 30 1 False) = Some [''sha256:a''] \<and>
   (\<exists>details i t. ecr_image_details tagged_twice_env = Some details \<and> i \<in> set details \<and>
      img_digest i = Some ''sha256:a'' \<and> img_pushed_at i = Some t \<and> t < ecr_now tagged_twice_env - 30 * 86400)"
  using cleanup_deletes_only_old [OF tagged_twice_deleted, of "''sha256:a''"] tagged_twice_deleted
  by simp

theorem cleanup_spares_latest_witness:
  "ecr_deleted (cleanup_old_images tagged_twice_env ''app'' 30 1 False) = Some [''sha256:a''] \<and>
   (\<exists>details srt i. ecr_image_details tagged_twice_env = Some details \<and>
      sort_newest_first details = Inr srt \<and> i \<in> set (drop (nat 1) srt) \<and> img_digest i = Some ''sha256:a'')"
  using cleanup_spares_latest [OF tagged_twice_deleted, of "''sha256:a''"] tagged_twice_deleted
  by simp

text \<open>C25.  A dry run never calls \<open>batch_delete_image\<close>.\<close>

theorem cleanup_dry_run_no_delete:
  "ecr_deleted (cleanup_old_images env repo days keep True) = None"
  using cleanup_deleted_cases [of env repo days keep True]
  by (cases "ecr_deleted (cleanup_old_images env repo days keep True)") auto

text \<open>C29.  Without \<open>--execute\<close> the command line performs a dry run: nothing is deleted.\<close>

theorem ecr_main_default_dry_run: "ecr_deleted (ecr_main env repo days keep False) = None"
proof -
  have "ecr_deleted (cleanup_old_images env repo d k True) = None" for d k
    using cleanup_deleted_cases [of env repo d k True]
    by (cases "ecr_deleted (cleanup_old_images env repo d k True)") auto
  then show ?thesis by (simp add: ecr_main_def)
qed

text \<open>
  C27.  When some images have a push date and others do not, the sort compares a
  naive \<open>datetime.min\<close> with an aware \<open>datetime\<close> and raises \<open>TypeError\<close>: the
  script ends with a traceback and deletes nothing.
\<close>

theorem cleanup_mixed_dates_crash:
  assumes "ecr_list_images env = Some n" and "0 < n" and "ecr_image_details env = Some details"
    and "mixed_keys details"
  shows "ecr_outcome (cleanup_old_images env repo days keep dry) = Raised TypeError \<and>
         ecr_deleted (cleanup_old_images env repo days keep dry) = None"
  using assms by (simp add: cleanup_old_images_def sort_newest_first_def)

theorem cleanup_mixed_dates_crash_witness:
  "ecr_list_images mixed_env = Some 2 \<and> (0::nat) < 2 \<and>
   ecr_image_details mixed_env = Some [img_at 5 ''a'', \<lparr>img_pushed_at = None, img_digest = None, img_tag = None\<rparr>] \<and>
   mixed_keys [img_at 5 ''a'', \<lparr>img_pushed_at = None, img_digest = None, img_tag = None\<rparr>] \<and>
   ecr_outcome (cleanup_old_images mixed_env ''app'' 30 10 True) = Raised TypeError"
proof -
  have h1: "ecr_list_images mixed_env = Some 2" and
       h3: "ecr_image_details mixed_env = Some [img_at 5 ''a'', \<lparr>img_pushed_at = None, img_digest = None, img_tag = None\<rparr>]"
    by (simp_all add: mixed_env_def)
  have h4: "mixed_keys [img_at 5 ''a'', \<lparr>img_pushed_at = None, img_digest = None, img_tag = None\<rparr>]"
    by (simp add: mixed_keys_def img_at_def)
  show ?thesis
    using cleanup_mixed_dates_crash [OF h1 _ h3 h4, of "''app''" 30 10 True] h1 h3 h4 by simp
qed

subsection \<open>Every old image past the cut is deleted\<close>

text \<open>
  C26.  In an executed run, the digest of every image entry past the
  \<open>keep_latest\<close> cut that is older than the cutoff is passed to
  \<open>batch_delete_image\<close>, whether or not an entry among the kept ones has the
  same digest: deletion is by digest and the cut is by entry, so an image listed
  under two tags that straddle the cut is deleted although it is one of the
  latest.
\<close>

theorem cleanup_deletes_kept_digest:
  assumes "ecr_list_images env = Some n" and "0 < n" and "ecr_image_details env = Some details"
    and "sort_newest_first details = Inr srt" and "cutoff_date (ecr_now env) days = Inr cutoff"
    and "i \<in> set (images_to_check keep srt)" and "older_than cutoff i" and "img_digest i = Some d"
  shows "\<exists>ds. ecr_deleted (cleanup_old_images env repo days keep False) = Some ds \<and> d \<in> set ds"
  using cleanup_deletes_old_checked [OF assms] .

theorem cleanup_deletes_kept_digest_witness:
  "images_to_keep 1 tagged_twice = [hd tagged_twice] \<and> img_digest (hd tagged_twice) = Some ''sha256:a'' \<and>
   (\<exists>ds. ecr_deleted (cleanup_old_images tagged_twice_env ''app'' 30 1 False) = Some ds \<and>
         ''sha256:a'' \<in> set ds)"
proof -
  have h1: "ecr_list_images tagged_twice_env = Some 2" and
       h3: "ecr_image_details tagged_twice_env = Some tagged_twice"
    by (simp_all add: tagged_twice_env_def)
  have h4: "sort_newest_first tagged_twice = Inr tagged_twice"
    by (simp add: tagged_twice_def sort_newest_first_def mixed_keys_def push_time_def)
  have h5: "cutoff_date (ecr_now tagged_twice_env) 30 = Inr 6048000"
    by (simp add: tagged_twice_env_def cutoff_date_def min_datetime_def max_datetime_def)
  have h6: "\<lparr>img_pushed_at = Some 0, img_digest = Some ''sha256:a'', img_tag = Some ''latest''\<rparr> \<in> set (images_to_check 1 tagged_twice)"
    by (simp add: tagged_twice_def images_to_check_def slice_index_def)
  have h7: "older_than 6048000 \<lparr>img_pushed_at = Some 0, img_digest = Some ''sha256:a'', img_tag = Some ''latest''\<rparr>"
    by (simp add: older_than_def)
  have keep: "images_to_keep 1 tagged_twice = [hd tagged_twice] \<and>
              img_digest (hd tagged_twice) = Some ''sha256:a''"
    by (simp add: tagged_twice_def images_to_keep_def slice_index_def)
  show ?thesis
    using cleanup_deletes_kept_digest [OF h1 _ h3 h4 h5 h6 h7, of "''sha256:a''" "''app''"] keep by simp
qed

subsection \<open>Images without a push date\<close>

text \<open>
  C30.  An image entry without \<open>imagePushedAt\<close> is never deleted: when no entry
  of \<open>batch_get_image\<close>'s answer has one (that operation does not return the
  field), the run deletes nothing, whatever \<open>--days\<close>, \<open>--keep-latest\<close> and
  \<open>--execute\<close> say.
\<close>

theorem cleanup_undated_never_deleted:
  assumes "ecr_image_details env = Some details" and "\<forall>i \<in> set details. img_pushed_at i = None"
  shows "ecr_deleted (cleanup_old_images env repo days keep dry) = None"
proof (rule ccontr)
  assume "ecr_deleted (cleanup_old_images env repo days keep dry) \<noteq> None"
  then obtain ds where "ecr_deleted (cleanup_old_images env repo days keep dry) = Some ds" by blast
  then obtain srt cutoff where
    srt: "sort_newest_first details = Inr srt" and
    ne: "images_to_delete cutoff (images_to_check keep srt) \<noteq> []"
    using cleanup_deleted_cases assms(1) by fastforce
  then obtain i where "i \<in> set (images_to_check keep srt)" and "older_than cutoff i"
    by (auto simp: images_to_delete_def filter_empty_conv)
  moreover from this(1) srt have "i \<in> set details"
    by (auto simp: images_to_check_def sort_newest_first_set dest: in_set_dropD)
  ultimately show False
    using assms(2) by (simp add: older_than_def)
qed

theorem cleanup_undated_never_deleted_witness:
  "ecr_image_details undated_env = Some [undated ''a'', undated ''b''] \<and>
   img_pushed_at (undated ''a'') = None \<and> img_pushed_at (undated ''b'') = None \<and>
   ecr_deleted (cleanup_old_images undated_env ''app'' 0 0 False) = None"
proof -
  have h1: "ecr_image_details undated_env = Some [undated ''a'', undated ''b'']"
    by (simp add: undated_env_def)
  have h2: "\<forall>i \<in> set [undated ''a'', undated ''b'']. img_pushed_at i = None"
    by (simp add: undated_def)
  show ?thesis
    using cleanup_undated_never_deleted [OF h1 h2, of "''app''" 0 0 False] h1 h2 by simp
qed

subsection \<open>A negative \<open>--keep-latest\<close>\<close>

text \<open>
  C31.  A negative \<open>keep_latest\<close> is accepted, and Python slicing then keeps
  all but the last \<open>|keep_latest|\<close> entries: when \<open>|keep_latest|\<close> is at least
  the number of entries, no image is protected, and every old image with a digest
  is deleted in an executed run, the newest included.
\<close>

theorem cleanup_negative_keep_deletes_all:
  assumes "keep < 0" and "int (length details) \<le> - keep"
    and "ecr_list_images env = Some n" and "0 < n" and "ecr_image_details env = Some details"
    and "\<not> mixed_keys details" and "cutoff_date (ecr_now env) days = Inr cutoff"
    and "i \<in> set details" and "older_than cutoff i" and "img_digest i = Some d"
  shows "\<exists>ds. ecr_deleted (cleanup_old_images env repo days keep False) = Some ds \<and> d \<in> set ds"
proof -
  define srt where "srt = sort_key (\<lambda>i. - push_time i) details"
  have s: "sort_newest_first details = Inr srt"
    using assms(6) by (simp add: sort_newest_first_def srt_def)
  have "images_to_check keep srt = srt"
    using assms(1,2) by (simp add: images_to_check_def slice_index_def srt_def)
  with assms(8) s have "i \<in> set (images_to_check keep srt)"
    by (simp add: sort_newest_first_set)
  from cleanup_deletes_old_checked [OF assms(3-5) s assms(7) this assms(9,10)] show ?thesis .
qed

theorem cleanup_negative_keep_deletes_all_witness:
  "(-1::int) < 0 \<and> int (length [img_at 0 ''sha256:b'']) \<le> - (-1) \<and>
   ecr_list_images single_env = Some 1 \<and> ecr_image_details single_env = Some [img_at 0 ''sha256:b''] \<and>
   \<not> mixed_keys [img_at 0 ''sha256:b''] \<and> cutoff_date (ecr_now single_env) 30 = Inr 6048000 \<and>
   older_than 6048000 (img_at 0 ''sha256:b'') \<and>
   (\<exists>ds. ecr_deleted (cleanup_old_images single_env ''app'' 30 (-1) False) = Some ds \<and>
         ''sha256:b'' \<in> set ds)"
proof -
  have h3: "ecr_list_images single_env = Some 1" and
       h5: "ecr_image_details single_env = Some [img_at 0 ''sha256:b'']"
    by (simp_all add: single_env_def)
  have h6: "\<not> mixed_keys [img_at 0 ''sha256:b'']"
    by (simp add: mixed_keys_def img_at_def)
  have h7: "cutoff_date (ecr_now single_env) 30 = Inr 6048000"
    by (simp add: single_env_def cutoff_date_def min_datetime_def max_datetime_def)
  have h9: "older_than 6048000 (img_at 0 ''sha256:b'')"
    by (simp add: older_than_def img_at_def)
  have h10: "img_digest (img_at 0 ''sha256:b'') = Some ''sha256:b''"
    by (simp add: img_at_def)
  show ?thesis
    using cleanup_negative_keep_deletes_all [OF _ _ h3 _ h5 h6 h7 _ h9 h10, where repo = "''app''" and keep = "-1"]
          h3 h5 h6 h7 h9 by simp
qed

end
