(* ===== verification/Cost_Report.thy ===== *)
theory Cost_Report
  imports Complex_Main Json_Model
begin

text \<open>
  \<open>generate_cost_report\<close> of \<open>src/automation/cost_report.py\<close> (lines 71--135):
  three Cost Explorer queries (EC2 cost per instance type, EKS total, ECR total),
  each in its own \<open>try\<close> block, printed one after the other.  The responses are
  inputs: the dictionary boto3 returns, or the exception it raises (record
  \<open>ce_env\<close>).  Dates are day numbers (days since 1970-01-01); amounts are exact
  rationals: the rounding of Python's floating-point sums is not modelled.
\<close>

section \<open>Python's \<open>float()\<close> and \<open>x[0]\<close>\<close>

definition is_digit :: "char \<Rightarrow> bool" where
  "is_digit c \<longleftrightarrow> 48 \<le> (of_char c :: nat) \<and> (of_char c :: nat) \<le> 57"

definition digits_value :: "string \<Rightarrow> nat" where
  "digits_value ds = foldl (\<lambda>n d. 10 * n + (of_char d - 48)) 0 ds"

text \<open>A decimal mantissa: digits, optionally a point and more digits, at least one digit.\<close>

definition parse_mantissa :: "string \<Rightarrow> rat option" where
  "parse_mantissa s =
     (let ip = takeWhile is_digit s; rest = dropWhile is_digit s in
      case rest of
        [] \<Rightarrow> if ip = [] then None else Some (of_nat (digits_value ip))
      | c # fp \<Rightarrow>
          if c = CHR ''.'' \<and> list_all is_digit fp \<and> (ip \<noteq> [] \<or> fp \<noteq> [])
          then Some (of_nat (digits_value ip) + of_nat (digits_value fp) / 10 ^ length fp)
          else None)"

definition parse_sign :: "string \<Rightarrow> rat \<times> string" where
  "parse_sign s =
     (case s of c # r \<Rightarrow> if c = CHR ''-'' then (-1, r) else if c = CHR ''+'' then (1, r) else (1, s)
      | [] \<Rightarrow> (1, []))"

definition parse_exponent :: "string \<Rightarrow> int option" where
  "parse_exponent s =
     (let (sg, ds) = parse_sign s in
      if ds \<noteq> [] \<and> list_all is_digit ds
      then Some (if sg < 0 then - int (digits_value ds) else int (digits_value ds)) else None)"

definition is_space :: "char \<Rightarrow> bool" where
  "is_space c \<longleftrightarrow> c \<in> set [CHR '' '', CHR 0x09, CHR 0x0A, CHR 0x0B, CHR 0x0C, CHR 0x0D]"

definition strip :: "string \<Rightarrow> string" where
  "strip s = rev (dropWhile is_space (rev (dropWhile is_space s)))"

text \<open>
  \<open>float(s)\<close> for the decimal notation \<open>[+-]digits[.digits][(e|E)[+-]digits]\<close>
  with surrounding whitespace.  The other spellings Python accepts (\<open>inf\<close>,
  \<open>nan\<close>, digits grouped by underscores) do not occur in Cost Explorer amounts and
  are not modelled: the model raises \<open>ValueError\<close> for them.  The value is the
  exact decimal number the string denotes, where Python rounds it to the nearest
  binary64 double (\<open>float('9007199254740993')\<close> is \<open>9007199254740992.0\<close>):
  what is proved of the report holds of its structure, and of its amounts only up
  to this rounding.
\<close>

definition parse_float :: "string \<Rightarrow> rat option" where
  "parse_float s =
     (let t = strip s; (sg, u) = parse_sign t;
          m = takeWhile (\<lambda>c. c \<noteq> CHR ''e'' \<and> c \<noteq> CHR ''E'') u;
          e = dropWhile (\<lambda>c. c \<noteq> CHR ''e'' \<and> c \<noteq> CHR ''E'') u in
      case parse_mantissa m of
        None \<Rightarrow> None
      | Some v \<Rightarrow>
          (case e of
             [] \<Rightarrow> Some (sg * v)
           | _ # ex \<Rightarrow> map_option (\<lambda>k. sg * v * (if 0 \<le> k then 10 ^ nat k else 1 / 10 ^ nat (- k)))
                          (parse_exponent ex)))"

fun py_float :: "json \<Rightarrow> rat py_result" where
  "py_float (JStr s) = (case parse_float s of None \<Rightarrow> Inl ValueError | Some v \<Rightarrow> Inr v)"
| "py_float (JInt i) = Inr (of_int i)"
| "py_float (JBool b) = Inr (if b then 1 else 0)"
| "py_float _ = Inl TypeError"

text \<open>\<open>x[0]\<close>.\<close>

fun py_index0 :: "json \<Rightarrow> json py_result" where
  "py_index0 (JArr (x # xs)) = Inr x"
| "py_index0 (JArr []) = Inl IndexError"
| "py_index0 (JStr (c # cs)) = Inr (JStr [c])"
| "py_index0 (JStr []) = Inl IndexError"
| "py_index0 (JObj kvs) = Inl KeyError"
| "py_index0 _ = Inl TypeError"

section \<open>The report\<close>

record ce_env =
  ce_today :: int                       \<comment> \<open>\<open>datetime.now()\<close>, as a day number\<close>
  ce_ec2 :: "json py_result"            \<comment> \<open>\<open>get_ec2_costs\<close>: the response or the exception\<close>
  ce_eks :: "json py_result"            \<comment> \<open>\<open>get_eks_costs\<close>\<close>
  ce_ecr :: "json py_result"            \<comment> \<open>\<open>get_ecr_costs\<close>\<close>

datatype cost_line =
    C_title int int | C_rule | C_dash
  | C_ec2_header | C_ec2_item json rat | C_ec2_error py_error
  | C_eks_header | C_eks_total rat | C_eks_error py_error
  | C_ecr_header | C_ecr_total rat | C_ecr_error py_error
  | C_note

datatype cost_outcome = CReturned | CRaised py_error

text \<open>Line 81: \<open>datetime.now() - timedelta(days=days)\<close>, in years 1 to 9999.\<close>

definition min_day :: int where "min_day = -719162"      \<comment> \<open>0001-01-01\<close>
definition max_day :: int where "max_day = 2932896"      \<comment> \<open>9999-12-31\<close>

definition start_date :: "int \<Rightarrow> int \<Rightarrow> int py_result" where
  "start_date today days =
     (if 999999999 < \<bar>days\<bar> then Inl OverflowError
      else if today - days < min_day \<or> max_day < today - days then Inl OverflowError
      else Inr (today - days))"

text \<open>\<open>x.get('Metrics', {}).get('BlendedCost', {}).get('Amount', '0')\<close> and
  \<open>x.get('Total', {})...\<close>, then \<open>float\<close>.\<close>

definition blended_amount :: "json \<Rightarrow> string \<Rightarrow> rat py_result" where
  "blended_amount x field =
     bind_err (py_get x field jempty_obj) (\<lambda>m.
     bind_err (py_get m ''BlendedCost'' jempty_obj) (\<lambda>b.
     bind_err (py_get b ''Amount'' (JStr ''0'')) py_float))"

text \<open>Lines 92--95: one line per group, the instance type first, then the cost.\<close>

fun ec2_groups :: "json list \<Rightarrow> (cost_line, unit) run" where
  "ec2_groups [] = ([], Inr ())"
| "ec2_groups (g # gs) =
     bind_run (lift_err (bind_err (py_get g ''Keys'' (JArr [JStr ''Unknown''])) py_index0)) (\<lambda>it.
     bind_run (lift_err (blended_amount g ''Metrics'')) (\<lambda>cost.
     bind_run (emit [C_ec2_item it cost]) (\<lambda>_. ec2_groups gs)))"

text \<open>Lines 91--95: the groups of every time period.\<close>

fun ec2_results :: "json list \<Rightarrow> (cost_line, unit) run" where
  "ec2_results [] = ([], Inr ())"
| "ec2_results (r # rs) =
     bind_run (lift_err (bind_err (py_get r ''Groups'' jempty_arr) py_iter)) (\<lambda>gs.
     bind_run (ec2_groups gs) (\<lambda>_. ec2_results rs))"

text \<open>Lines 104--107 and 117--120: \<open>total += float(...)\<close> over the periods.\<close>

fun sum_totals :: "rat \<Rightarrow> json list \<Rightarrow> rat py_result" where
  "sum_totals acc [] = Inr acc"
| "sum_totals acc (r # rs) = bind_err (blended_amount r ''Total'') (\<lambda>c. sum_totals (acc + c) rs)"

definition results_by_time :: "json \<Rightarrow> json list py_result" where
  "results_by_time resp = bind_err (py_get resp ''ResultsByTime'' jempty_arr) py_iter"

definition ec2_section :: "json py_result \<Rightarrow> (cost_line, unit) run" where
  "ec2_section resp =
     bind_run (lift_err resp) (\<lambda>r. bind_run (lift_err (results_by_time r)) ec2_results)"

definition total_section :: "(rat \<Rightarrow> cost_line) \<Rightarrow> json py_result \<Rightarrow> (cost_line, unit) run" where
  "total_section line resp =
     bind_run (lift_err resp) (\<lambda>r.
     bind_run (lift_err (results_by_time r)) (\<lambda>rs.
     bind_run (lift_err (sum_totals 0 rs)) (\<lambda>t. emit [line t])))"

text \<open>\<open>try: ... except Exception as e: print(...)\<close>: the lines printed before the
  exception stay, followed by the error line.\<close>

definition try_section :: "(cost_line, unit) run \<Rightarrow> (py_error \<Rightarrow> cost_line) \<Rightarrow> cost_line list" where
  "try_section r handler = fst r @ (case snd r of Inl e \<Rightarrow> [handler e] | Inr _ \<Rightarrow> [])"

definition generate_cost_report :: "ce_env \<Rightarrow> int \<Rightarrow> cost_line list \<times> cost_outcome" where
  "generate_cost_report env days =
     (case start_date (ce_today env) days of
        Inl e \<Rightarrow> ([], CRaised e)
      | Inr st \<Rightarrow>
          ([C_title st (ce_today env), C_rule, C_ec2_header, C_dash]
           @ try_section (ec2_section (ce_ec2 env)) C_ec2_error
           @ [C_eks_header, C_dash]
           @ try_section (total_section C_eks_total (ce_eks env)) C_eks_error
           @ [C_ecr_header, C_dash]
           @ try_section (total_section C_ecr_total (ce_ecr env)) C_ecr_error
           @ [C_rule, C_note], CReturned))"

definition cost_main :: "ce_env \<Rightarrow> int option \<Rightarrow> cost_line list \<times> cost_outcome" where
  "cost_main env days = generate_cost_report env (case days of None \<Rightarrow> 30 | Some d \<Rightarrow> d)"

section \<open>Reference descriptions of the sections\<close>

text \<open>The total of a response: the sum of the amounts of its periods.\<close>

definition response_total :: "json py_result \<Rightarrow> rat py_result" where
  "response_total resp =
     bind_err resp (\<lambda>r. bind_err (results_by_time r) (\<lambda>rs.
       bind_err (traverse_err (\<lambda>x. blended_amount x ''Total'') rs) (\<lambda>xs. Inr (sum_list xs))))"

definition total_line :: "(rat \<Rightarrow> cost_line) \<Rightarrow> (py_error \<Rightarrow> cost_line) \<Rightarrow> json py_result \<Rightarrow> cost_line" where
  "total_line line handler resp =
     (case response_total resp of Inr t \<Rightarrow> line t | Inl e \<Rightarrow> handler e)"

subsection \<open>An example response set\<close>

definition sample_env :: ce_env where
  "sample_env = \<lparr>ce_today = 20000, ce_ec2 = Inl ServiceError,
     ce_eks = Inr (JObj [(''ResultsByTime'', JArr [
        JObj [(''Total'', JObj [(''BlendedCost'', JObj [(''Amount'', JStr ''1.25'')])])],
        JObj [(''Total'', JObj [])]])]),
     ce_ecr = Inr (JObj [(''ResultsByTime'', JArr [JObj [(''Total'', JStr ''x'')]])])\<rparr>"

section \<open>Properties of the cost report\<close>

lemma sum_totals_acc:
  "sum_totals acc rs =
     bind_err (traverse_err (\<lambda>r. blended_amount r ''Total'') rs) (\<lambda>xs. Inr (acc + sum_list xs))"
  by (induction rs arbitrary: acc) (auto simp: bind_err_def algebra_simps split: sum.splits)

lemma try_total_section:
  "try_section (total_section line resp) handler = [total_line line handler resp]"
  by (auto simp: try_section_def total_section_def total_line_def response_total_def lift_err_def
                 emit_def bind_err_def sum_totals_acc split: sum.splits)

text \<open>
  C32.  Whenever the start date is in range, the report prints its three sections
  in order and returns normally: an exception in one section is printed as that
  section's error line and does not affect the others.  The EKS and ECR sections
  each print exactly one line: the sum of the amounts of the response, or the
  error that reading it raised.
\<close>

theorem cost_report_sections:
  assumes "start_date (ce_today env) days = Inr st"
  shows "\<exists>ec2. generate_cost_report env days =
     ([C_title st (ce_today env), C_rule, C_ec2_header, C_dash] @ ec2 @
      [C_eks_header, C_dash, total_line C_eks_total C_eks_error (ce_eks env),
       C_ecr_header, C_dash, total_line C_ecr_total C_ecr_error (ce_ecr env), C_rule, C_note],
      CReturned)"
  using assms by (simp add: generate_cost_report_def try_total_section)

theorem cost_report_sections_witness:
  "start_date (ce_today sample_env) 30 = Inr 19970 \<and>
   total_line C_eks_total C_eks_error (ce_eks sample_env) = C_eks_total (5 / 4) \<and>
   total_line C_ecr_total C_ecr_error (ce_ecr sample_env) = C_ecr_error AttributeError \<and>
   (\<exists>ec2. generate_cost_report sample_env 30 =
     ([C_title 19970 (ce_today sample_env), C_rule, C_ec2_header, C_dash] @ ec2 @
      [C_eks_header, C_dash, total_line C_eks_total C_eks_error (ce_eks sample_env),
       C_ecr_header, C_dash, total_line C_ecr_total C_ecr_error (ce_ecr sample_env), C_rule, C_note],
      CReturned))"
proof -
  have h: "start_date (ce_today sample_env) 30 = Inr 19970"
    by (simp add: start_date_def sample_env_def min_day_def max_day_def)
  have eks: "total_line C_eks_total C_eks_error (ce_eks sample_env) = C_eks_total (5 / 4)"
    by (simp add: total_line_def response_total_def sample_env_def results_by_time_def
         blended_amount_def jempty_obj_def jempty_arr_def parse_float_def strip_def is_space_def
         parse_sign_def parse_mantissa_def is_digit_def digits_value_def)
  have ecr: "total_line C_ecr_total C_ecr_error (ce_ecr sample_env) = C_ecr_error AttributeError"
    by (simp add: total_line_def response_total_def sample_env_def results_by_time_def
         blended_amount_def jempty_obj_def jempty_arr_def)
  show ?thesis using cost_report_sections [OF h] h eks ecr by simp
qed

text \<open>
  C33.  When \<open>--days\<close> is beyond \<open>timedelta\<close>'s range, the start date raises
  \<open>OverflowError\<close> before anything is printed.
\<close>

theorem cost_report_overflow:
  assumes "999999999 < \<bar>days\<bar>"
  shows "generate_cost_report env days = ([], CRaised OverflowError)"
  using assms by (simp add: generate_cost_report_def start_date_def)

theorem cost_report_overflow_witness:
  "999999999 < \<bar>1000000000::int\<bar> \<and>
   generate_cost_report sample_env 1000000000 = ([], CRaised OverflowError)"
  using cost_report_overflow [of 1000000000 sample_env] by simp

end
