(* ===== verification/Spec2Isabelle.thy ===== *)
theory Spec2Isabelle
  imports Health_Phases Ecr_Cleanup Cost_Report
begin

text \<open>
  \<^bold>\<open>A verification development for the GitOps platform's automation scripts.\<close>

  The repository's program logic lives in three Python scripts under
  \<open>src/automation\<close>:
  \<^item> \<open>health_check.py\<close>: a cluster health check.  It runs \<open>kubectl cluster-info\<close>
    (\<open>check_cluster_connectivity\<close>), then three probes, each over the JSON that
    \<open>kubectl get ... -o json\<close> prints (\<open>run_kubectl_command\<close>):
    \<open>check_node_status\<close> (Ready conditions of nodes), \<open>check_pod_status\<close>
    (pod phases and containers in CrashLoopBackOff) and \<open>check_service_endpoints\<close>
    (services whose endpoints object has no subsets).  \<open>run_health_check\<close> prints a
    report and maps the probe results to a verdict and a process exit status.
  \<^item> \<open>cleanup_ecr.py\<close>: selection of ECR images to delete (keep the latest N, delete
    the rest older than a cutoff), around boto3 calls.
  \<^item> \<open>cost_report.py\<close>: three AWS Cost Explorer queries and their printing.

  \<^bold>\<open>Theories and correspondence with the code.\<close>
  \<^item> \<open>Prelude\<close>: Python exceptions as values (\<open>py_error\<close>), the error-propagating
    bind \<open>bind_err\<close> and loop \<open>traverse_err\<close> that stand for Python's control flow
    (an exception aborts the enclosing call), the run type
    \<open>('o, 'a) run\<close> of a fragment that prints lines and then returns or raises,
    and the list-counting lemmas the probes share.
  \<^item> \<open>Json_Model\<close>: the values \<open>json.loads\<close> produces (\<open>json\<close>) and the Python
    operations the probes apply to them: \<open>py_get\<close> (\<open>d.get(k, default)\<close>, raising
    \<open>AttributeError\<close> on a non-dict), \<open>py_iter\<close> (a \<open>for\<close> loop over a list, the
    keys of a dict or the characters of a string; \<open>TypeError\<close> otherwise),
    \<open>py_len\<close>, and \<open>py_key\<close>/\<open>key_norm\<close> for values used as dictionary keys
    (hashability, \<open>True == 1\<close>).
  \<^item> \<open>Node_Probe\<close>, \<open>Pod_Probe\<close>, \<open>Endpoint_Probe\<close>: one theory per probe, each
    in two layers.  The typed layer has a record per resource holding exactly the
    fields the code reads (\<open>condition\<close>, \<open>node\<close>; \<open>container_status\<close>, \<open>pod\<close>;
    \<open>service\<close>, \<open>endpoint\<close>), with Python's defaults, and the source's loops over
    them as accumulator recursions (\<open>count_conditions\<close>/\<open>count_nodes\<close>,
    \<open>classify_phase\<close>/\<open>count_containers\<close>/\<open>count_pods\<close>,
    \<open>build_endpoint_map\<close>/\<open>collect_without\<close>).  The JSON layer
    (\<open>check_node_status\<close>, \<open>check_pod_status\<close>, \<open>check_service_endpoints\<close> and
    their \<open>_j\<close> loops) is the source function over the document, every \<open>.get\<close>,
    iteration, \<open>len\<close> and dictionary access included.  \<open>decode_*\<close> read the typed
    records out of a document.
  \<^item> \<open>Health_Check\<close>: the collaborator and the aggregator.  The record \<open>cluster\<close>
    gives the outcome of each \<open>kubectl\<close> invocation (\<open>kubectl_result\<close>: the
    executable missing, a non-zero exit, non-JSON output, or a JSON value);
    \<open>run_kubectl_command\<close> turns failures into \<open>{}\<close> as the source does.
    \<open>run_health_check\<close> is the whole script run: the report it prints, one
    \<open>report_line\<close> per \<open>print\<close>, and its \<open>outcome\<close> (\<open>sys.exit(n)\<close> or an
    exception that escapes, which Python ends with status 1).  \<open>health_body\<close>
    sequences the three probes as lines 125--163 do, \<open>finish\<close> prints the verdict
    and exits, \<open>health_main\<close> is the command-line entry with its default
    namespace.  \<open>observe\<close> is the typed snapshot the probes read, and
    \<open>verdict_t\<close> the specification's verdict rule over it.

  \<^item> \<open>Health_Phases\<close>: the sequential phase machine of the specification
    (section 4.5): \<open>hc_state\<close> with its phase and the probe results gathered so
    far, the inductive step relation \<open>hc_step\<close> (connect or stop unreachable, then
    nodes, pods, endpoints, verdict) and its reflexive-transitive closure
    \<open>hc_reach\<close>; \<open>hc_next\<close> is the executable step function.
  \<^item> \<open>Ecr_Cleanup\<close>: \<open>cleanup_ecr.py\<close>.  \<open>image\<close> holds the fields of an image
    description the code reads (\<open>imagePushedAt\<close> as an optional timestamp,
    digest, tags); \<open>push_key\<close>/\<open>push_time\<close> model the sort key
    \<open>x.get('imagePushedAt', datetime.min)\<close> with its naive default;
    \<open>sort_newest_first\<close> is the in-place \<open>image_details.sort(key=..., reverse=True)\<close>
    of line 71 (a \<open>TypeError\<close> when a naive and an aware key are compared,
    otherwise a stable sort); \<open>slice_index\<close> is Python slicing, used
    by \<open>images_to_keep\<close>/\<open>images_to_check\<close>; \<open>cutoff_date\<close> raises
    \<open>OverflowError\<close> outside the \<open>datetime\<close> range; \<open>images_to_delete\<close>,
    \<open>image_ids_to_delete\<close>, \<open>delete_phase\<close>, \<open>cleanup_old_images\<close> and
    \<open>ecr_main\<close> follow the function bodies, the boto3 responses being inputs
    (\<open>ecr_env\<close>).
  \<^item> \<open>Cost_Report\<close>: \<open>cost_report.py\<close>.  The three Cost Explorer responses are
    inputs (\<open>ce_env\<close>: a JSON document or the exception the client raised);
    \<open>generate_cost_report\<close> runs the three \<open>try\<close> sections (\<open>try_section\<close>: an
    exception prints an error line and the run goes on), with the EC2 loop over
    periods and groups (\<open>ec2_results\<close>, \<open>ec2_groups\<close>) and the EKS/ECR running
    totals (\<open>sum_totals\<close>); \<open>parse_float\<close> is Python's \<open>float()\<close> on decimal
    strings (sign, digits, point, exponent, surrounding whitespace), with values as
    exact rationals: Python rounds each \<open>float()\<close> and each \<open>+=\<close> to a
    binary64 double, which the model does not, so no theorem here is about the
    value of an amount beyond the sum of the decimal strings read.

  \<^bold>\<open>What is proved.\<close>
  \<^item> Aggregator (\<open>Health_Check\<close>): the exit status is 0 exactly when the cluster is
    reachable, the snapshot is read and it satisfies the verdict rule
    (\<open>health_exit_zero_iff\<close>); the status is always 0 or 1; an unreachable cluster
    short-circuits the run with status 1 and no other query; the report contains
    the full node and pod counts whenever the snapshot was read; a missing
    \<open>kubectl\<close> ends the run with an uncaught \<open>FileNotFoundError\<close>; a service
    without endpoints whose name is not a string ends it with \<open>TypeError\<close>; a
    reachable cluster whose resource queries all fail is reported HEALTHY.
  \<^item> Phase machine (\<open>Health_Phases\<close>): a history invariant of the reachable states
    by rule induction over \<open>hc_reach\<close>, and the refinement theorem
    \<open>run_health_check_refines_phases\<close>: the script exits with status 0 (resp. 1)
    exactly when the machine reaches Verdicted with a healthy (resp. unhealthy)
    verdict.  The verdict rule itself is shared by the two sides; it is pinned
    by \<open>health_exit_zero_iff\<close>.
  \<^item> Probes: each counting loop in closed form (sums over the resources of per-
    resource counts); the bounds and the exact-sum conditions of the specification
    (\<open>running + pending + failed \<le> total\<close>, with equality exactly for recognised
    phases; \<open>ready + not_ready = total\<close> when each node has exactly one Ready
    condition); the endpoint dictionary keeps the last entry per name; the
    reported services are those without endpoints, in input order.
  \<^item> Refinement: each JSON-level probe equals the typed probe after decoding, with
    the same exception where decoding raises.
  \<^item> ECR: with comparable keys the sort is a stable newest-first sort of the
    images; only images older than the cutoff are deleted, and for
    \<open>keep_latest \<ge> 0\<close> only entries past the first \<open>keep_latest\<close>; every old entry
    past the cut is deleted, also when a kept entry has the same digest; a dry run
    deletes nothing and is the default of \<open>main\<close>; entries without a push date are
    never deleted; a negative \<open>keep_latest\<close> protects no image; mixing images
    with and without a push date crashes with \<open>TypeError\<close>.
  \<^item> Cost report: each section's failure is confined to that section and the
    run returns, the EKS and ECR sections printing the sum of their amounts or
    the error; an out-of-range \<open>--days\<close> raises before any output.
  \<^item> Divergences from the specification, each a theorem: readiness is counted per
    Ready condition, not per node (\<open>node_without_ready_uncounted\<close>);
    CrashLoopBackOff is counted per container, not per pod
    (\<open>crash_loop_per_container\<close>); query failures are not told apart from an
    empty healthy cluster; a missing \<open>kubectl\<close> and an unnamed service end the run
    with a traceback; the ECR cleanup deletes a kept image through a tag of the
    same digest, never deletes anything when \<open>batch_get_image\<close> omits
    \<open>imagePushedAt\<close>, protects nothing for a negative \<open>keep_latest\<close>, and crashes on
    a repository that mixes images with and without \<open>imagePushedAt\<close>.

  \<^bold>\<open>Bounds and termination.\<close>  Every loop of the modelled code iterates over a
  finite list the input supplies; all are structural recursions (\<open>fun\<close>), so
  every definition is total and executable and no fuel is needed.  Counters are
  \<open>nat\<close> and amounts \<open>rat\<close>: Python integers do not overflow; dates are
  \<open>int\<close> day or second counts with the \<open>datetime\<close> range checked explicitly.

  \<^bold>\<open>Not modelled.\<close>  The text formatting of the printed lines (a line is
  the constructor of its \<open>print\<close> with the values it shows, amounts unrounded);
  the standard-error text of failed commands; floating-point rounding, and
  \<open>float()\<close> of \<open>inf\<close>, \<open>nan\<close>, hexadecimal or underscore-separated strings (these
  raise \<open>ValueError\<close> in the model); the internals of boto3 and the Cost Explorer
  and ECR services, whose responses are inputs (the paginated \<open>list_images\<close> listing is
  reduced to the number of image ids it yields).
\<close>

end
